theory Spec2Isabelle
  imports Main "HOL-Library.Sublist"
begin

section \<open>Python values used by \<open>plugins/modules/instance.py\<close>\<close>

text \<open>
  Errors are values.  \<open>Fail msg\<close> is \<open>fail_json(msg=...)\<close>; the other constructors are the
  Python exceptions the modelled code can raise, or an error reported by a collaborator.
\<close>

datatype error =
    Fail string
  | KeyError string
  | ValueError
  | TypeError
  | AttributeError
  | IndexError
  | ApiError string

text \<open>
  Lowering of the ASCII letters.  Strings are byte strings here (UTF-8), and \<open>str.lower()\<close>
  is a parameter of the model (\<open>str_lower\<close> below), used where names are lowered.  A state
  name is only ever lowered to be compared with one of the words \<open>starting\<close>, \<open>running\<close>,
  \<open>stopping\<close>, \<open>stopped\<close>, \<open>destroying\<close>, \<open>destroyed\<close>, \<open>expunging\<close>.  On these
  comparisons \<open>lower\<close> decides as \<open>str.lower()\<close> does: besides the ASCII capitals, the only
  character that \<open>str.lower()\<close> turns into a single ASCII letter is the Kelvin sign, into
  \<open>k\<close>, a letter of none of these words.
\<close>

definition lower_char :: "char \<Rightarrow> char" where
  "lower_char c =
     (case map_of (zip ''ABCDEFGHIJKLMNOPQRSTUVWXYZ'' ''abcdefghijklmnopqrstuvwxyz'') c of
        Some d \<Rightarrow> d
      | None \<Rightarrow> c)"

definition lower :: "string \<Rightarrow> string" where
  "lower s = map lower_char s"

text \<open>\<open>"%s" % n\<close> for an integer, and \<open>"%s" % x\<close> for an optional string.\<close>

fun digits :: "nat \<Rightarrow> string" where
  "digits n =
     (if n < 10 then [''0123456789'' ! n]
      else digits (n div 10) @ [''0123456789'' ! (n mod 10)])"

declare digits.simps [simp del]

definition str_int :: "int \<Rightarrow> string" where
  "str_int i = (if i < 0 then ''-'' @ digits (nat (- i)) else digits (nat i))"

definition str_opt :: "string option \<Rightarrow> string" where
  "str_opt x = (case x of None \<Rightarrow> ''None'' | Some s \<Rightarrow> s)"

definition quoted :: "string \<Rightarrow> string" where
  "quoted s = [CHR 0x27] @ s @ [CHR 0x27]"

text \<open>Truthiness of an optional string, an optional list and an optional integer.\<close>

definition truthy_str :: "string option \<Rightarrow> bool" where
  "truthy_str x = (case x of None \<Rightarrow> False | Some s \<Rightarrow> s \<noteq> [])"

definition truthy_list :: "'a list option \<Rightarrow> bool" where
  "truthy_list x = (case x of None \<Rightarrow> False | Some l \<Rightarrow> l \<noteq> [])"

definition truthy_int :: "int option \<Rightarrow> bool" where
  "truthy_int x = (case x of None \<Rightarrow> False | Some i \<Rightarrow> i \<noteq> 0)"

fun join :: "string \<Rightarrow> string list \<Rightarrow> string" where
  "join sep [] = []"
| "join sep [x] = x"
| "join sep (x # y # ys) = x @ sep @ join sep (y # ys)"

section \<open>Data model\<close>

text \<open>
  A virtual machine as the control plane reports it.  The keys the code indexes with
  \<open>v["..."]\<close> are plain fields; the keys it reads with \<open>.get\<close> or tests with \<open>in\<close> are
  optional.  \<open>keypairs\<close> is a list or, on some wires, a scalar.
\<close>

datatype keypairs_wire = KPScalar string | KPList "string list"

record vm =
  vm_id :: string
  vm_name :: string
  displayname :: string
  state :: string
  hostname :: "string option"
  account :: "string option"
  domainid :: "string option"
  projectid :: "string option"
  keypairs :: "keypairs_wire option"
  keypair :: "string option"
  securitygroup :: "string list option"
  userdata :: "string option"

text \<open>
  The dictionaries the code passes around under the names \<open>instance\<close> and \<open>res\<close>: a job
  handle \<open>{"jobid": j}\<close>, a virtual machine, an envelope \<open>{"virtualmachine": v}\<close>, or \<open>{}\<close>.
\<close>

datatype reply = Job string | VM vm | Envelope vm | Empty

record named =
  res_name :: string
  res_id :: string

record volume =
  volume_id :: string
  volume_size :: int

record tmpl =
  tmpl_displaytext :: "string option"
  tmpl_name :: string
  tmpl_id :: string
  tmpl_size :: int
  tmpl_hypervisor :: "string option"

record iso_rec =
  iso_displaytext :: string
  iso_name :: string
  iso_id :: string
  iso_size :: int
  iso_hypervisor :: "string option"

record network =
  net_displaytext :: string
  net_name :: string
  net_id :: string

record ip_mapping =
  mapping_network :: string
  mapping_ip :: "string option"

record ip_to_network =
  networkid :: string
  data :: ip_mapping

text \<open>A value of the \<open>details\<close> dictionary: a string given by the caller or an integer.\<close>

datatype detail = DStr string | DInt int

text \<open>The module parameters (\<open>module.params\<close>) and \<open>module.check_mode\<close>.\<close>

record params =
  name :: "string option"
  display_name :: "string option"
  group :: "string option"
  service_offering :: "string option"
  cpu :: "int option"
  cpu_speed :: "int option"
  memory :: "int option"
  template :: "string option"
  iso :: "string option"
  template_filter :: string
  networks :: "string list option"
  ip_to_networks :: "ip_mapping list option"
  ip_address :: "string option"
  ip6_address :: "string option"
  disk_size :: "int option"
  root_disk_size :: "int option"
  keyboard :: "string option"
  host :: "string option"
  cluster :: "string option"
  pod :: "string option"
  security_groups :: "string list option"
  affinity_groups :: "string list option"
  user_data :: "string option"
  user_data_name :: "string option"
  user_data_details :: "(string \<times> string) list option"
  ssh_keys :: "string list option"
  force :: bool
  details :: "(string \<times> detail) list option"
  poll_async :: bool
  allow_root_disk_shrink :: bool
  check_mode :: bool

subsection \<open>Arguments of the mutating calls\<close>

record offering_args =
  offering_vm_id :: string
  serviceofferingid :: "string option"

record update_args =
  update_vm_id :: string
  update_userdataid :: "string option"
  update_userdata :: "string option"
  userdatadetails :: "(string \<times> string) list option"
  ostypeid :: "string option"
  update_group :: "string option"
  update_displayname :: "string option"
  securitygroupnames :: "string option"

record ssh_key_args =
  ssh_vm_id :: string
  ssh_projectid :: "string option"
  ssh_keypairs :: "string list option"

record volume_args =
  resize_id :: "string option"
  resize_size :: "int option"
  shrinkok :: "bool option"

record deploy_args =
  d_templateid :: string
  d_zoneid :: "string option"
  d_serviceofferingid :: string
  d_account :: "string option"
  d_domainid :: "string option"
  d_projectid :: "string option"
  d_diskofferingid :: "string option"
  d_networkids :: "string option"
  d_iptonetworklist :: "ip_to_network list option"
  d_userdata :: "string option"
  d_userdataid :: "string option"
  d_userdatadetails :: "(string \<times> string) list option"
  d_keyboard :: "string option"
  d_ipaddress :: "string option"
  d_ip6address :: "string option"
  d_name :: "string option"
  d_displayname :: "string option"
  d_group :: "string option"
  d_keypairs :: "string list option"
  d_size :: "int option"
  d_startvm :: bool
  d_rootdisksize :: "int option"
  d_affinitygroupnames :: "string list option"
  d_details :: "(string \<times> detail) list option"
  d_securitygroupnames :: "string list option"
  d_hostid :: "string option"
  d_clusterid :: "string option"
  d_podid :: "string option"
  d_hypervisor :: "string option"

text \<open>
  What the module sends to the control plane, in the order it sends it: every mutating
  \<open>query_api\<close> command with its arguments, and every \<open>poll_job\<close> with the value polled
  and the result key.
\<close>

datatype call =
    StopVirtualMachine string
  | StartVirtualMachine string "string option"
  | ChangeServiceForVirtualMachine offering_args
  | UpdateVirtualMachine update_args
  | ResetSSHKeyForVirtualMachine ssh_key_args
  | ResizeVolume volume_args
  | MigrateVirtualMachine string "string option"
  | RecoverVirtualMachine string
  | DestroyVirtualMachine string bool
  | DeployVirtualMachine deploy_args
  | PollJob "reply option" string

text \<open>
  The collaborators of the module that are not part of \<open>instance.py\<close>: the transport
  (\<open>query_api\<close>, one field per command), \<open>poll_job\<close>, \<open>has_changed\<close>, \<open>ensure_tags\<close>, the scope
  resolvers, \<open>base64.b64encode\<close>, \<open>str.lower\<close> and the rendering of a list of names with
  \<open>"%s"\<close>.  They are parameters.  Each answer may depend on the calls sent so
  far, and may be an error.  \<open>None\<close> for a listing is the empty response \<open>{}\<close>.
  \<open>listSSHKeyPairs\<close> is seen through \<open>get_ssh_keypair(key="fingerprint")\<close>: the fingerprint
  of the first entry of \<open>"sshkeypair"\<close>, \<open>None\<close> when the response has no such key.
\<close>

record ext =
  api :: "call list \<Rightarrow> call \<Rightarrow> error + reply"
  poll_job :: "call list \<Rightarrow> reply option \<Rightarrow> string \<Rightarrow> error + reply option"
  has_changed_offering :: "offering_args \<Rightarrow> reply \<Rightarrow> bool"
  has_changed_instance :: "update_args \<Rightarrow> reply \<Rightarrow> bool"
  listVirtualMachines :: "call list \<Rightarrow> error + vm list"
  listSSHKeyPairs :: "call list \<Rightarrow> string \<Rightarrow> error + string option"
  listVolumes :: "call list \<Rightarrow> string \<Rightarrow> error + volume list option"
  listTemplates :: "call list \<Rightarrow> error + tmpl list"
  listIsos :: "call list \<Rightarrow> error + iso_rec list"
  listNetworks :: "call list \<Rightarrow> error + network list"
  listServiceOfferings :: "call list \<Rightarrow> error + named list option"
  listHosts :: "call list \<Rightarrow> error + named list option"
  listClusters :: "call list \<Rightarrow> error + named list option"
  listPods :: "call list \<Rightarrow> error + named list option"
  listUserData :: "call list \<Rightarrow> error + named list option option"
  repr_user_data :: "named list option option \<Rightarrow> string"
  getVirtualMachineUserData :: "call list \<Rightarrow> string \<Rightarrow> error + string option"
  get_zone :: "call list \<Rightarrow> error + string option"
  get_account :: "call list \<Rightarrow> error + string option"
  get_domain :: "call list \<Rightarrow> error + string option"
  get_project :: "call list \<Rightarrow> error + string option"
  get_disk_offering :: "call list \<Rightarrow> error + string option"
  get_hypervisor :: "call list \<Rightarrow> error + string option"
  get_os_type :: "call list \<Rightarrow> error + string option"
  b64encode :: "string \<Rightarrow> string"
  str_lower :: "string \<Rightarrow> string"
  repr_names :: "string list \<Rightarrow> string"
  ensure_tags :: "call list \<Rightarrow> reply option \<Rightarrow> error + reply option"

text \<open>
  The state of one invocation: \<open>self.instance\<close>, \<open>self.template\<close>, \<open>self.iso\<close>,
  \<open>self.result["changed"]\<close>, the warnings given with \<open>module.warn\<close>, and the calls sent.
\<close>

record st =
  self_instance :: "reply option"
  self_template :: "tmpl option"
  self_iso :: "iso_rec option"
  result_changed :: bool
  warnings :: "string list"
  trace :: "call list"

section \<open>Sequencing\<close>

text \<open>
  A method is a function from the state to a result and the new state.  An error ends the
  method; the state reached (with the calls already sent) is kept.
\<close>

type_synonym 'a m = "st \<Rightarrow> (error + 'a) \<times> st"

definition ret :: "'a \<Rightarrow> 'a m" where
  "ret x = (\<lambda>s. (Inr x, s))"

definition raise :: "error \<Rightarrow> 'a m" where
  "raise e = (\<lambda>s. (Inl e, s))"

definition bindm :: "'a m \<Rightarrow> ('a \<Rightarrow> 'b m) \<Rightarrow> 'b m" where
  "bindm f g = (\<lambda>s. case f s of (Inl e, s') \<Rightarrow> (Inl e, s') | (Inr x, s') \<Rightarrow> g x s')"

definition lift :: "error + 'a \<Rightarrow> 'a m" where
  "lift r = (\<lambda>s. (r, s))"

text \<open>A read of the control plane or of a scope resolver.\<close>

definition ask :: "(call list \<Rightarrow> error + 'a) \<Rightarrow> 'a m" where
  "ask f = (\<lambda>s. (f (trace s), s))"

text \<open>A mutating \<open>query_api\<close> command: it is sent, then answered.\<close>

definition query_api :: "ext \<Rightarrow> call \<Rightarrow> reply m" where
  "query_api e c = (\<lambda>s. (api e (trace s) c, s\<lparr>trace := trace s @ [c]\<rparr>))"

definition poll :: "ext \<Rightarrow> reply option \<Rightarrow> string \<Rightarrow> reply option m" where
  "poll e job k =
     (\<lambda>s. (poll_job e (trace s) job k, s\<lparr>trace := trace s @ [PollJob job k]\<rparr>))"

definition get_self_instance :: "reply option m" where
  "get_self_instance = (\<lambda>s. (Inr (self_instance s), s))"

definition set_self_instance :: "reply option \<Rightarrow> unit m" where
  "set_self_instance i = (\<lambda>s. (Inr (), s\<lparr>self_instance := i\<rparr>))"

definition set_changed :: "unit m" where
  "set_changed = (\<lambda>s. (Inr (), s\<lparr>result_changed := True\<rparr>))"

definition warn :: "string \<Rightarrow> unit m" where
  "warn msg = (\<lambda>s. (Inr (), s\<lparr>warnings := warnings s @ [msg]\<rparr>))"

fun mapm :: "('a \<Rightarrow> 'b m) \<Rightarrow> 'a list \<Rightarrow> 'b list m" where
  "mapm f [] = ret []"
| "mapm f (x # xs) = bindm (f x) (\<lambda>y. bindm (mapm f xs) (\<lambda>ys. ret (y # ys)))"

subsection \<open>Reading a dictionary\<close>

text \<open>\<open>if instance:\<close> for a value that is \<open>None\<close> or a dictionary.\<close>

definition truthy_reply :: "reply option \<Rightarrow> bool" where
  "truthy_reply r = (case r of None \<Rightarrow> False | Some Empty \<Rightarrow> False | Some _ \<Rightarrow> True)"

text \<open>\<open>instance["state"]\<close>, \<open>instance["id"]\<close>, \<open>instance["name"]\<close> and \<open>res["virtualmachine"]\<close>.\<close>

definition item_state :: "reply \<Rightarrow> error + string" where
  "item_state r = (case r of VM v \<Rightarrow> Inr (state v) | _ \<Rightarrow> Inl (KeyError ''state''))"

definition item_id :: "reply \<Rightarrow> error + string" where
  "item_id r = (case r of VM v \<Rightarrow> Inr (vm_id v) | _ \<Rightarrow> Inl (KeyError ''id''))"

definition item_name :: "reply \<Rightarrow> error + string" where
  "item_name r = (case r of VM v \<Rightarrow> Inr (vm_name v) | _ \<Rightarrow> Inl (KeyError ''name''))"

definition item_virtualmachine :: "reply \<Rightarrow> error + reply" where
  "item_virtualmachine r =
     (case r of Envelope v \<Rightarrow> Inr (VM v) | _ \<Rightarrow> Inl (KeyError ''virtualmachine''))"

text \<open>The same on a value that may be \<open>None\<close> (subscripting \<open>None\<close> is a \<open>TypeError\<close>).\<close>

definition sub_state :: "reply option \<Rightarrow> error + string" where
  "sub_state r = (case r of None \<Rightarrow> Inl TypeError | Some d \<Rightarrow> item_state d)"

definition sub_id :: "reply option \<Rightarrow> error + string" where
  "sub_id r = (case r of None \<Rightarrow> Inl TypeError | Some d \<Rightarrow> item_id d)"

text \<open>\<open>instance.get("hostname")\<close> (\<open>None.get\<close> is an \<open>AttributeError\<close>).\<close>

definition get_hostname :: "reply option \<Rightarrow> error + string option" where
  "get_hostname r =
     (case r of None \<Rightarrow> Inl AttributeError
      | Some (VM v) \<Rightarrow> Inr (hostname v)
      | Some _ \<Rightarrow> Inr None)"

section \<open>Resource locator\<close>

text \<open>
  Modelled from the spec: \<open>get_or_fallback\<close> of the shared module utilities, which is
  not part of \<open>instance.py\<close> ("name falls back to display name and vice versa").
\<close>

definition get_or_fallback :: "string option \<Rightarrow> string option \<Rightarrow> string option" where
  "get_or_fallback v fallback = (if truthy_str v then v else fallback)"

text \<open>The first entry of a listing whose name or id is the wanted one.\<close>

definition find_named :: "string \<Rightarrow> named list \<Rightarrow> named option" where
  "find_named x l = find (\<lambda>h. x \<in> set [res_name h, res_id h]) l"

definition get_service_offering_id :: "ext \<Rightarrow> params \<Rightarrow> string m" where
  "get_service_offering_id e p =
     bindm (ask (listServiceOfferings e)) (\<lambda>service_offerings.
       let not_found = raise (Fail (''Service offering '' @ quoted (str_opt (service_offering p))
                                     @ '' not found''))
       in case service_offerings of
            None \<Rightarrow> not_found
          | Some l \<Rightarrow>
              if \<not> truthy_str (service_offering p) then
                (case l of [] \<Rightarrow> raise IndexError | s # _ \<Rightarrow> ret (res_id s))
              else
                (case find_named (the (service_offering p)) l of
                   Some s \<Rightarrow> ret (res_id s)
                 | None \<Rightarrow> not_found))"

definition lookup_in_zone ::
  "ext \<Rightarrow> string \<Rightarrow> (call list \<Rightarrow> error + named list option) \<Rightarrow> string option
     \<Rightarrow> string option m" where
  "lookup_in_zone e kind listing wanted =
     (if \<not> truthy_str wanted then ret None
      else
        bindm (ask (get_zone e)) (\<lambda>zoneid.
        bindm (ask listing) (\<lambda>found.
          case (case found of None \<Rightarrow> None | Some l \<Rightarrow> find_named (the wanted) l) of
            Some h \<Rightarrow> ret (Some (res_id h))
          | None \<Rightarrow> raise (Fail (kind @ '' '' @ quoted (the wanted) @ '' not found'')))))"

definition get_host_id :: "ext \<Rightarrow> params \<Rightarrow> string option m" where
  "get_host_id e p = lookup_in_zone e ''Host'' (listHosts e) (host p)"

definition get_cluster_id :: "ext \<Rightarrow> params \<Rightarrow> string option m" where
  "get_cluster_id e p = lookup_in_zone e ''Cluster'' (listClusters e) (cluster p)"

definition get_pod_id :: "ext \<Rightarrow> params \<Rightarrow> string option m" where
  "get_pod_id e p = lookup_in_zone e ''Pod'' (listPods e) (pod p)"

text \<open>
  The scoping arguments \<open>account\<close>, \<open>domainid\<close>, \<open>projectid\<close> of a listing are resolved
  before the listing is sent; a resolver that fails ends the method.
\<close>

definition scope_args :: "ext \<Rightarrow> unit m" where
  "scope_args e =
     bindm (ask (get_account e)) (\<lambda>_.
     bindm (ask (get_domain e)) (\<lambda>_.
     bindm (ask (get_project e)) (\<lambda>_. ret ())))"

definition scope_zone_args :: "ext \<Rightarrow> unit m" where
  "scope_zone_args e = bindm (scope_args e) (\<lambda>_. bindm (ask (get_zone e)) (\<lambda>_. ret ()))"

subsection \<open>\<open>get_template_or_iso\<close>\<close>

datatype boot_source = Template tmpl | Iso iso_rec

definition template_matches :: "string \<Rightarrow> tmpl \<Rightarrow> bool" where
  "template_matches t c \<longleftrightarrow> Some t \<in> set [tmpl_displaytext c, Some (tmpl_name c), Some (tmpl_id c)]"

definition template_too_big :: "int option \<Rightarrow> tmpl \<Rightarrow> bool" where
  "template_too_big rootdisksize c \<longleftrightarrow>
     truthy_int rootdisksize \<and> tmpl_size c > the rootdisksize * 1024 ^ 3"

fun scan_templates :: "string \<Rightarrow> int option \<Rightarrow> tmpl list \<Rightarrow> tmpl option" where
  "scan_templates t rootdisksize [] = None"
| "scan_templates t rootdisksize (c # cs) =
     (if template_matches t c then
        (if template_too_big rootdisksize c then scan_templates t rootdisksize cs
         else Some c)
      else scan_templates t rootdisksize cs)"

definition iso_matches :: "string \<Rightarrow> iso_rec \<Rightarrow> bool" where
  "iso_matches i c \<longleftrightarrow> i \<in> set [iso_displaytext c, iso_name c, iso_id c]"

definition template_not_found :: "string \<Rightarrow> int option \<Rightarrow> string" where
  "template_not_found t rootdisksize =
     ''Template '' @ quoted t @ '' not found''
       @ (if truthy_int rootdisksize then '' (with size <= '' @ str_int (the rootdisksize) @ '')''
          else [])"

definition get_template_or_iso :: "ext \<Rightarrow> params \<Rightarrow> boot_source option m" where
  "get_template_or_iso e p =
     (if \<not> truthy_str (template p) \<and> \<not> truthy_str (iso p) then ret None
      else
        bindm (scope_zone_args e) (\<lambda>_.
          if truthy_str (template p) then
            (\<lambda>s. case self_template s of
                    Some t \<Rightarrow> (Inr (Some (Template t)), s)
                  | None \<Rightarrow>
                      bindm (ask (listTemplates e)) (\<lambda>templates.
                        case scan_templates (the (template p)) (root_disk_size p) templates of
                          Some t \<Rightarrow> (\<lambda>s. (Inr (Some (Template t)), s\<lparr>self_template := Some t\<rparr>))
                        | None \<Rightarrow>
                            raise (Fail (template_not_found (the (template p))
                                           (root_disk_size p)))) s)
          else
            (\<lambda>s. case self_iso s of
                    Some i \<Rightarrow> (Inr (Some (Iso i)), s)
                  | None \<Rightarrow>
                      bindm (ask (listIsos e)) (\<lambda>isos.
                        case find (iso_matches (the (iso p))) isos of
                          Some i \<Rightarrow> (\<lambda>s. (Inr (Some (Iso i)), s\<lparr>self_iso := Some i\<rparr>))
                        | None \<Rightarrow>
                            raise (Fail (''ISO '' @ quoted (the (iso p)) @ '' not found''))) s)))"

text \<open>
  \<open>get_template_or_iso\<close> is modelled with \<open>key=None\<close>: it gives the record found.  With
  \<open>key="id"\<close> the source hands back the \<open>id\<close> of that record, which is \<open>source_id\<close>.
\<close>

definition source_id :: "boot_source \<Rightarrow> string" where
  "source_id b = (case b of Template t \<Rightarrow> tmpl_id t | Iso i \<Rightarrow> iso_id i)"

definition source_hypervisor :: "boot_source \<Rightarrow> string option" where
  "source_hypervisor b = (case b of Template t \<Rightarrow> tmpl_hypervisor t | Iso i \<Rightarrow> iso_hypervisor i)"

subsection \<open>\<open>get_instance\<close>\<close>

text \<open>The workaround of \<open>get_instance\<close>: \<open>keypairs\<close> becomes a list whatever the wire had.\<close>

definition normalise_keypairs :: "vm \<Rightarrow> vm" where
  "normalise_keypairs v =
     v\<lparr>keypairs := Some (KPList (case keypairs v of
                                   None \<Rightarrow> []
                                 | Some (KPScalar k) \<Rightarrow> [k]
                                 | Some (KPList ks) \<Rightarrow> ks))\<rparr>"

definition instance_matches :: "ext \<Rightarrow> string \<Rightarrow> vm \<Rightarrow> bool" where
  "instance_matches e instance_name v \<longleftrightarrow>
     str_lower e instance_name
       \<in> set [str_lower e (vm_name v), str_lower e (displayname v), vm_id v]"

definition get_instance :: "ext \<Rightarrow> params \<Rightarrow> bool \<Rightarrow> reply option m" where
  "get_instance e p refresh =
     bindm get_self_instance (\<lambda>cached.
       if \<not> truthy_reply cached \<or> refresh then
         bindm (scope_args e) (\<lambda>_.
         bindm (ask (listVirtualMachines e)) (\<lambda>instances.
           case instances of
             [] \<Rightarrow> get_self_instance
           | _ # _ \<Rightarrow>
               (case get_or_fallback (name p) (display_name p) of
                  None \<Rightarrow> raise AttributeError
                | Some instance_name \<Rightarrow>
                    (case find (instance_matches e instance_name) instances of
                       None \<Rightarrow> get_self_instance
                     | Some v \<Rightarrow>
                         bindm (set_self_instance (Some (VM (normalise_keypairs v))))
                           (\<lambda>_. get_self_instance)))))
       else ret cached)"

section \<open>Change detector\<close>

subsection \<open>SSH keys\<close>

definition get_ssh_keypair :: "ext \<Rightarrow> string \<Rightarrow> bool \<Rightarrow> string option m" where
  "get_ssh_keypair e key_name fail_on_missing =
     bindm (ask (get_domain e)) (\<lambda>_.
     bindm (ask (get_account e)) (\<lambda>_.
     bindm (ask (get_project e)) (\<lambda>_.
     bindm (ask (\<lambda>h. listSSHKeyPairs e h key_name)) (\<lambda>found.
       case found of
         Some fingerprint \<Rightarrow> ret (Some fingerprint)
       | None \<Rightarrow>
           if fail_on_missing then raise (Fail (''SSH key not found: '' @ key_name))
           else ret None))))"

text \<open>
  \<open>self.instance.get("keypairs") or [self.instance.get("keypair") or ""]\<close>.  Iterating a
  non-empty scalar goes through its characters.
\<close>

definition instance_ssh_keys :: "reply \<Rightarrow> string list" where
  "instance_ssh_keys r =
     (case r of
        VM v \<Rightarrow>
          (case keypairs v of
             Some (KPList (k # ks)) \<Rightarrow> k # ks
           | Some (KPScalar (c # cs)) \<Rightarrow> map (\<lambda>x. [x]) (c # cs)
           | _ \<Rightarrow> [if truthy_str (keypair v) then the (keypair v) else []])
      | _ \<Rightarrow> [[]])"

fun ssh_keys_loop ::
  "ext \<Rightarrow> string list \<Rightarrow> string option list \<Rightarrow> string list \<Rightarrow> bool m" where
  "ssh_keys_loop e wanted param_fingerprints [] = ret False"
| "ssh_keys_loop e wanted param_fingerprints (instance_ssh_key # rest) =
     (if wanted = [] then ret True
      else
        bindm (get_ssh_keypair e instance_ssh_key False) (\<lambda>fingerprint.
          if \<not> truthy_str fingerprint then ret True
          else if fingerprint \<notin> set param_fingerprints then ret True
          else ssh_keys_loop e wanted param_fingerprints rest))"

definition ssh_keys_changed :: "ext \<Rightarrow> params \<Rightarrow> bool m" where
  "ssh_keys_changed e p =
     (case ssh_keys p of
        None \<Rightarrow> ret False
      | Some wanted \<Rightarrow>
          bindm get_self_instance (\<lambda>cached.
            case cached of
              None \<Rightarrow> raise AttributeError
            | Some inst \<Rightarrow>
                bindm (mapm (\<lambda>k. get_ssh_keypair e k True) wanted) (\<lambda>param_fingerprints.
                  ssh_keys_loop e wanted param_fingerprints (instance_ssh_keys inst))))"

subsection \<open>Security groups\<close>

definition instance_security_groups :: "reply \<Rightarrow> string list" where
  "instance_security_groups r =
     (case r of VM v \<Rightarrow> (case securitygroup v of None \<Rightarrow> [] | Some l \<Rightarrow> l) | _ \<Rightarrow> [])"

text \<open>
  The first loop: \<open>None\<close> is the early \<open>return True\<close>, otherwise the names collected.
\<close>

fun collect_instance_groups ::
  "ext \<Rightarrow> string list \<Rightarrow> string list \<Rightarrow> string list \<Rightarrow> string list option" where
  "collect_instance_groups e wanted [] names = Some names"
| "collect_instance_groups e wanted (g # gs) names =
     (if str_lower e g \<notin> set wanted then None
      else collect_instance_groups e wanted gs (names @ [str_lower e g]))"

fun missing_on_instance :: "string list \<Rightarrow> string list \<Rightarrow> bool" where
  "missing_on_instance [] names = False"
| "missing_on_instance (g # gs) names =
     (if g \<notin> set names then True else missing_on_instance gs names)"

definition security_groups_changed :: "ext \<Rightarrow> params \<Rightarrow> bool m" where
  "security_groups_changed e p =
     (case security_groups p of
        None \<Rightarrow> ret False
      | Some groups \<Rightarrow>
          bindm get_self_instance (\<lambda>cached.
            case cached of
              None \<Rightarrow> raise AttributeError
            | Some inst \<Rightarrow>
                (case collect_instance_groups e (map (str_lower e) groups)
                        (instance_security_groups inst) [] of
                   None \<Rightarrow> ret True
                 | Some names \<Rightarrow>
                     ret (missing_on_instance (map (str_lower e) groups) names))))"

subsection \<open>Networks\<close>

fun resolve_networks :: "network list \<Rightarrow> string list \<Rightarrow> network list" where
  "resolve_networks nets [] = []"
| "resolve_networks nets (network_name # rest) =
     (case find (\<lambda>n. network_name \<in> set [net_displaytext n, net_name n, net_id n]) nets of
        Some n \<Rightarrow> n # resolve_networks nets rest
      | None \<Rightarrow> resolve_networks nets rest)"

definition get_network_ids :: "ext \<Rightarrow> params \<Rightarrow> string list option \<Rightarrow> string list option m" where
  "get_network_ids e p given =
     (let network_names = (case given of None \<Rightarrow> networks p | Some l \<Rightarrow> Some l)
      in if \<not> truthy_list network_names then ret None
         else
           bindm (scope_zone_args e) (\<lambda>_.
           bindm (ask (listNetworks e)) (\<lambda>nets.
             if nets = [] then raise (Fail ''No networks available'')
             else
               let found = resolve_networks nets (the network_names)
               in if length found \<noteq> length (the network_names) then
                    raise (Fail (''Could not find all networks, networks list found: ''
                                 @ repr_names e (map net_name found)))
                  else ret (Some (map net_id found)))))"

definition get_iptonetwork_mappings :: "ext \<Rightarrow> params \<Rightarrow> ip_to_network list option m" where
  "get_iptonetwork_mappings e p =
     (case ip_to_networks p of
        None \<Rightarrow> ret None
      | Some network_mappings \<Rightarrow>
          if network_mappings \<noteq> [] \<and> truthy_list (networks p) then
            raise (Fail ''networks and ip_to_networks are mutually exclusive.'')
          else
            bindm (get_network_ids e p (Some (map mapping_network network_mappings))) (\<lambda>ids.
              case network_mappings of
                [] \<Rightarrow> ret (Some [])
              | _ # _ \<Rightarrow>
                  (case ids of
                     None \<Rightarrow> raise TypeError
                   | Some l \<Rightarrow>
                       ret (Some (map (\<lambda>(i, d). \<lparr>networkid = i, data = d\<rparr>)
                                    (zip l network_mappings))))))"

subsection \<open>User data\<close>

definition get_user_data :: "ext \<Rightarrow> params \<Rightarrow> string option" where
  "get_user_data e p = map_option (b64encode e) (user_data p)"

definition get_user_data_id_by_name :: "ext \<Rightarrow> params \<Rightarrow> string option m" where
  "get_user_data_id_by_name e p =
     (if \<not> truthy_str (user_data_name p) then ret None
      else
        bindm (scope_args e) (\<lambda>_.
        bindm (ask (listUserData e)) (\<lambda>user_data_list.
          case find_named (the (user_data_name p))
                 (case user_data_list of Some (Some l) \<Rightarrow> l | _ \<Rightarrow> []) of
            Some v \<Rightarrow> ret (Some (res_id v))
          | None \<Rightarrow>
              raise (Fail (''User data '' @ quoted (repr_user_data e user_data_list)
                           @ '' not found'')))))"

definition get_instance_user_data :: "ext \<Rightarrow> params \<Rightarrow> reply \<Rightarrow> string m" where
  "get_instance_user_data e p inst =
     (case inst of
        VM v \<Rightarrow>
          (case userdata v of
             Some u \<Rightarrow> ret u
           | None \<Rightarrow>
               if get_user_data e p \<noteq> None \<and> vm_id v \<noteq> [] then
                 bindm (ask (\<lambda>h. getVirtualMachineUserData e h (vm_id v))) (\<lambda>res.
                   ret (case res of None \<Rightarrow> [] | Some u \<Rightarrow> u))
               else ret [])
      | _ \<Rightarrow> ret [])"

text \<open>
  \<open>instance["userdata"] = ...\<close>; the value is a virtual machine where this is reached.
  The write is kept on the argument of \<open>update_instance\<close>.  In the source that argument is
  the dictionary held in \<open>self.instance\<close> unless the instance has just been recovered, so
  the cached dictionary gets the key as well; no method modelled here reads the \<open>userdata\<close>
  of \<open>self.instance\<close>, and no property below speaks of it.
\<close>

definition set_userdata :: "reply \<Rightarrow> string \<Rightarrow> reply" where
  "set_userdata inst u = (case inst of VM v \<Rightarrow> VM (v\<lparr>userdata := Some u\<rparr>) | r \<Rightarrow> r)"

section \<open>Reconciler\<close>

subsection \<open>Stop, start, recover, expunge\<close>

definition stop_instance :: "ext \<Rightarrow> params \<Rightarrow> reply option m" where
  "stop_instance e p =
     bindm (get_instance e p False) (\<lambda>inst.
       if truthy_reply inst then
         bindm (lift (sub_state inst)) (\<lambda>st0.
           if lower st0 \<in> set [''stopping'', ''stopped''] then ret inst
           else if lower st0 \<in> set [''starting'', ''running''] then
             bindm set_changed (\<lambda>_.
               if \<not> check_mode p then
                 bindm (lift (sub_id inst)) (\<lambda>vid.
                 bindm (query_api e (StopVirtualMachine vid)) (\<lambda>res.
                   if poll_async p then poll e (Some res) ''virtualmachine''
                   else ret (Some res)))
               else ret inst)
           else ret inst)
       else ret inst)"

definition start_instance :: "ext \<Rightarrow> params \<Rightarrow> reply option m" where
  "start_instance e p =
     bindm (get_instance e p False) (\<lambda>inst.
       if truthy_reply inst then
         bindm (lift (sub_state inst)) (\<lambda>st0.
           if lower st0 \<in> set [''starting'', ''running''] then ret inst
           else if lower st0 \<in> set [''stopped'', ''stopping''] then
             bindm set_changed (\<lambda>_.
               if \<not> check_mode p then
                 bindm (lift (sub_id inst)) (\<lambda>vid.
                 bindm (get_host_id e p) (\<lambda>hostid.
                 bindm (query_api e (StartVirtualMachine vid hostid)) (\<lambda>res.
                   if poll_async p then poll e (Some res) ''virtualmachine''
                   else ret (Some res))))
               else ret inst)
           else ret inst)
       else ret inst)"

definition recover_instance :: "ext \<Rightarrow> params \<Rightarrow> reply \<Rightarrow> reply m" where
  "recover_instance e p inst =
     bindm (lift (item_state inst)) (\<lambda>st0.
       if lower st0 \<in> set [''destroying'', ''destroyed''] then
         bindm set_changed (\<lambda>_.
           if \<not> check_mode p then
             bindm (lift (item_id inst)) (\<lambda>vid.
             bindm (query_api e (RecoverVirtualMachine vid)) (\<lambda>res.
               lift (item_virtualmachine res)))
           else ret inst)
       else ret inst)"

definition destroy_with_expunge :: "ext \<Rightarrow> params \<Rightarrow> reply option \<Rightarrow> reply m" where
  "destroy_with_expunge e p inst =
     bindm set_changed (\<lambda>_.
       if \<not> check_mode p then
         bindm (lift (sub_id inst)) (\<lambda>vid. query_api e (DestroyVirtualMachine vid True))
       else ret Empty)"

definition expunge_instance :: "ext \<Rightarrow> params \<Rightarrow> reply option m" where
  "expunge_instance e p =
     bindm (get_instance e p False) (\<lambda>inst.
       if truthy_reply inst then
         bindm (lift (sub_state inst)) (\<lambda>st0.
         bindm (if lower st0 \<in> set [''destroying'', ''destroyed''] then destroy_with_expunge e p inst
                else if lower st0 \<notin> set [''expunging''] then destroy_with_expunge e p inst
                else ret Empty) (\<lambda>res.
         bindm (if poll_async p then poll e (Some res) ''virtualmachine'' else ret (Some res))
           (\<lambda>_. ret inst)))
       else ret inst)"

subsection \<open>Deploy\<close>

text \<open>\<open>d[k] = v\<close> on a dictionary kept as an association list in insertion order.\<close>

definition dict_set :: "string \<Rightarrow> 'v \<Rightarrow> (string \<times> 'v) list \<Rightarrow> (string \<times> 'v) list" where
  "dict_set k v d =
     (if k \<in> fst ` set d then map (\<lambda>(k', v'). if k' = k then (k', v) else (k', v')) d
      else d @ [(k, v)])"

definition get_details :: "params \<Rightarrow> (string \<times> detail) list option" where
  "get_details p =
     (if truthy_int (cpu p) \<or> truthy_int (cpu_speed p) \<or> truthy_int (memory p) then
        let d0 = (case details p of None \<Rightarrow> [] | Some d \<Rightarrow> d);
            d1 = (if truthy_int (cpu p) then dict_set ''cpuNumber'' (DInt (the (cpu p))) d0 else d0);
            d2 = (if truthy_int (cpu_speed p) then dict_set ''cpuSpeed'' (DInt (the (cpu_speed p))) d1
                  else d1);
            d3 = (if truthy_int (memory p) then dict_set ''memory'' (DInt (the (memory p))) d2 else d2)
        in Some d3
      else details p)"

definition deploy_instance :: "ext \<Rightarrow> params \<Rightarrow> bool \<Rightarrow> reply option m" where
  "deploy_instance e p start_vm =
     bindm set_changed (\<lambda>_.
     bindm (get_network_ids e p None) (\<lambda>networkids.
     bindm (get_template_or_iso e p) (\<lambda>source.
       if \<not> truthy_str (map_option source_id source) then
         raise (Fail ''Template or ISO is required.'')
       else
         bindm (ask (get_zone e)) (\<lambda>zoneid.
         bindm (get_service_offering_id e p) (\<lambda>offering.
         bindm (ask (get_account e)) (\<lambda>acc.
         bindm (ask (get_domain e)) (\<lambda>dom.
         bindm (ask (get_project e)) (\<lambda>proj.
         bindm (ask (get_disk_offering e)) (\<lambda>diskoffering.
         bindm (get_iptonetwork_mappings e p) (\<lambda>iptonetworklist.
         bindm (get_user_data_id_by_name e p) (\<lambda>userdataid.
         bindm (get_host_id e p) (\<lambda>hostid.
         bindm (get_cluster_id e p) (\<lambda>clusterid.
         bindm (get_pod_id e p) (\<lambda>podid.
         bindm (get_template_or_iso e p) (\<lambda>template_iso.
         bindm (case template_iso of
                  None \<Rightarrow> ret None
                | Some b \<Rightarrow>
                    if source_hypervisor b = None then ask (get_hypervisor e) else ret None)
               (\<lambda>hypervisor.
           let args = \<lparr>d_templateid = source_id (the source),
                       d_zoneid = zoneid,
                       d_serviceofferingid = offering,
                       d_account = acc,
                       d_domainid = dom,
                       d_projectid = proj,
                       d_diskofferingid = diskoffering,
                       d_networkids = map_option (join '','') networkids,
                       d_iptonetworklist = iptonetworklist,
                       d_userdata = get_user_data e p,
                       d_userdataid = userdataid,
                       d_userdatadetails = user_data_details p,
                       d_keyboard = keyboard p,
                       d_ipaddress = ip_address p,
                       d_ip6address = ip6_address p,
                       d_name = name p,
                       d_displayname = get_or_fallback (display_name p) (name p),
                       d_group = group p,
                       d_keypairs = ssh_keys p,
                       d_size = disk_size p,
                       d_startvm = start_vm,
                       d_rootdisksize = root_disk_size p,
                       d_affinitygroupnames = affinity_groups p,
                       d_details = get_details p,
                       d_securitygroupnames = security_groups p,
                       d_hostid = hostid,
                       d_clusterid = clusterid,
                       d_podid = podid,
                       d_hypervisor = hypervisor\<rparr>
           in if \<not> check_mode p then
                bindm (query_api e (DeployVirtualMachine args)) (\<lambda>res.
                  if poll_async p then poll e (Some res) ''virtualmachine''
                  else ret (Some res))
              else ret None))))))))))))))))"

subsection \<open>Update\<close>

text \<open>
  What \<open>update_instance\<close> computes before it decides: the five change axes, the arguments
  prepared for the calls, and the \<open>instance\<close> dictionary with its \<open>userdata\<close> filled in.
\<close>

record detected =
  args_service_offering :: offering_args
  service_offering_axis :: bool
  args_instance_update :: update_args
  instance_axis :: bool
  ssh_keys_axis :: bool
  security_groups_axis :: bool
  args_volume_update :: volume_args
  root_disk_size_axis :: bool
  seen_instance :: reply

definition detect_service_offering :: "ext \<Rightarrow> params \<Rightarrow> reply \<Rightarrow> (offering_args \<times> bool) m" where
  "detect_service_offering e p inst =
     bindm (lift (item_id inst)) (\<lambda>vid.
     bindm (if truthy_str (service_offering p)
            then bindm (get_service_offering_id e p) (\<lambda>i. ret (Some i))
            else ret None) (\<lambda>offering.
       let args = \<lparr>offering_vm_id = vid, serviceofferingid = offering\<rparr>
       in ret (args, has_changed_offering e args inst)))"

definition detect_instance :: "ext \<Rightarrow> params \<Rightarrow> reply \<Rightarrow> (update_args \<times> bool \<times> reply) m" where
  "detect_instance e p inst =
     bindm (lift (item_id inst)) (\<lambda>vid.
     bindm (if user_data_name p \<noteq> None then
              bindm (get_user_data_id_by_name e p) (\<lambda>i. ret (i, None, inst))
            else
              bindm (get_instance_user_data e p inst) (\<lambda>u.
                ret (None, get_user_data e p, set_userdata inst u))) (\<lambda>(udid, ud, inst').
     bindm (ask (get_os_type e)) (\<lambda>os.
       let args = \<lparr>update_vm_id = vid,
                   update_userdataid = udid,
                   update_userdata = ud,
                   userdatadetails = (if truthy_list (user_data_details p) then user_data_details p
                                      else None),
                   ostypeid = os,
                   update_group = (if truthy_str (group p) then group p else None),
                   update_displayname = (if truthy_str (display_name p) then display_name p
                                         else None),
                   securitygroupnames = None\<rparr>
       in ret (args, has_changed_instance e args inst', inst'))))"

text \<open>
  The root-disk-size axis.  \<open>[volume] = res["volume"]\<close> wants exactly one volume;
  \<open>volume["size"] >> 30\<close> is the size in GiB.
\<close>

definition detect_root_disk_size :: "ext \<Rightarrow> params \<Rightarrow> reply \<Rightarrow> (volume_args \<times> bool) m" where
  "detect_root_disk_size e p inst =
     (case root_disk_size p of
        None \<Rightarrow> ret (\<lparr>resize_id = None, resize_size = None, shrinkok = None\<rparr>, False)
      | Some wanted \<Rightarrow>
          bindm (lift (item_id inst)) (\<lambda>vid.
          bindm (ask (\<lambda>h. listVolumes e h vid)) (\<lambda>res.
            case res of
              None \<Rightarrow> raise (KeyError ''volume'')
            | Some [vol] \<Rightarrow>
                let size = drop_bit 30 (volume_size vol)
                in ret (\<lparr>resize_id = Some (volume_id vol),
                          resize_size = Some wanted,
                          shrinkok = (if allow_root_disk_shrink p then Some True else None)\<rparr>,
                        wanted \<noteq> size)
            | Some _ \<Rightarrow> raise ValueError)))"

definition detect_changes :: "ext \<Rightarrow> params \<Rightarrow> reply \<Rightarrow> detected m" where
  "detect_changes e p inst =
     bindm (detect_service_offering e p inst) (\<lambda>(so_args, so_changed).
     bindm (detect_instance e p inst) (\<lambda>(upd_args, upd_changed, inst').
     bindm (ssh_keys_changed e p) (\<lambda>keys_changed.
     bindm (security_groups_changed e p) (\<lambda>groups_changed.
     bindm (detect_root_disk_size e p inst') (\<lambda>(vol_args, vol_changed).
       ret \<lparr>args_service_offering = so_args,
            service_offering_axis = so_changed,
            args_instance_update = upd_args,
            instance_axis = upd_changed,
            ssh_keys_axis = keys_changed,
            security_groups_axis = groups_changed,
            args_volume_update = vol_args,
            root_disk_size_axis = vol_changed,
            seen_instance = inst'\<rparr>)))))"

definition any_changed :: "detected \<Rightarrow> bool" where
  "any_changed d \<longleftrightarrow>
     service_offering_axis d \<or> instance_axis d \<or> security_groups_axis d \<or> ssh_keys_axis d
       \<or> root_disk_size_axis d"

text \<open>The steps of the update cycle, one definition for each commented block of the source.\<close>

definition ensure_stopped :: "ext \<Rightarrow> params \<Rightarrow> reply option m" where
  "ensure_stopped e p =
     bindm (stop_instance e p) (\<lambda>inst.
     bindm (poll e inst ''virtualmachine'') (\<lambda>inst.
     bindm (set_self_instance inst) (\<lambda>_. ret inst)))"

definition change_service_offering :: "ext \<Rightarrow> detected \<Rightarrow> reply option \<Rightarrow> reply option m" where
  "change_service_offering e d inst =
     (if service_offering_axis d then
        bindm (query_api e (ChangeServiceForVirtualMachine (args_service_offering d))) (\<lambda>res.
        bindm (lift (item_virtualmachine res)) (\<lambda>v.
        bindm (set_self_instance (Some v)) (\<lambda>_. ret (Some v))))
      else ret inst)"

definition update_vm :: "ext \<Rightarrow> params \<Rightarrow> detected \<Rightarrow> reply option \<Rightarrow> reply option m" where
  "update_vm e p d inst =
     (if instance_axis d \<or> security_groups_axis d then
        bindm (if security_groups_axis d then
                 (case security_groups p of
                    None \<Rightarrow> raise TypeError
                  | Some l \<Rightarrow>
                      ret ((args_instance_update d)\<lparr>securitygroupnames := Some (join '','' l)\<rparr>))
               else ret (args_instance_update d)) (\<lambda>args.
        bindm (query_api e (UpdateVirtualMachine args)) (\<lambda>res.
        bindm (lift (item_virtualmachine res)) (\<lambda>v.
        bindm (set_self_instance (Some v)) (\<lambda>_. ret (Some v)))))
      else ret inst)"

definition reset_ssh_key :: "ext \<Rightarrow> params \<Rightarrow> detected \<Rightarrow> reply option \<Rightarrow> reply option m" where
  "reset_ssh_key e p d inst =
     (if ssh_keys_axis d then
        bindm (lift (sub_id inst)) (\<lambda>vid.
        bindm (ask (get_project e)) (\<lambda>proj.
        bindm (query_api e (ResetSSHKeyForVirtualMachine
                 \<lparr>ssh_vm_id = vid, ssh_projectid = proj, ssh_keypairs = ssh_keys p\<rparr>)) (\<lambda>res.
        bindm (poll e (Some res) ''virtualmachine'') (\<lambda>inst'.
        bindm (set_self_instance inst') (\<lambda>_. ret inst')))))
      else ret inst)"

definition resize_root_disk :: "ext \<Rightarrow> detected \<Rightarrow> unit m" where
  "resize_root_disk e d =
     (if root_disk_size_axis d then
        bindm (query_api e (ResizeVolume (args_volume_update d))) (\<lambda>async_result.
        bindm (poll e (Some async_result) ''volume'') (\<lambda>_. ret ()))
      else ret ())"

definition start_again :: "ext \<Rightarrow> params \<Rightarrow> string \<Rightarrow> bool \<Rightarrow> reply option \<Rightarrow> reply option m" where
  "start_again e p instance_state start_vm inst =
     (if instance_state = ''running'' \<and> start_vm then start_instance e p else ret inst)"

definition apply_changes ::
  "ext \<Rightarrow> params \<Rightarrow> detected \<Rightarrow> string \<Rightarrow> bool \<Rightarrow> reply option m" where
  "apply_changes e p d instance_state start_vm =
     bindm (ensure_stopped e p) (\<lambda>inst.
     bindm (change_service_offering e d inst) (\<lambda>inst.
     bindm (update_vm e p d inst) (\<lambda>inst.
     bindm (reset_ssh_key e p d inst) (\<lambda>inst.
     bindm (resize_root_disk e d) (\<lambda>_.
       start_again e p instance_state start_vm inst)))))"

definition not_applied_warning :: "string \<Rightarrow> string" where
  "not_applied_warning n =
     ''Changes won'' @ [CHR 0x27] @ ''t be applied to running instances. ''
       @ ''Use force=true to allow the instance '' @ n @ '' to be stopped/started.''"

definition apply_or_warn :: "ext \<Rightarrow> params \<Rightarrow> detected \<Rightarrow> bool \<Rightarrow> reply option m" where
  "apply_or_warn e p d start_vm =
     (if any_changed d then
        bindm (lift (item_state (seen_instance d))) (\<lambda>st0.
          let instance_state = lower st0
          in if instance_state = ''stopped'' \<or> force p then
               bindm set_changed (\<lambda>_.
                 if \<not> check_mode p then apply_changes e p d instance_state start_vm
                 else ret (Some (seen_instance d)))
             else
               bindm (lift (item_name (seen_instance d))) (\<lambda>n.
               bindm (warn (not_applied_warning n)) (\<lambda>_. ret (Some (seen_instance d)))))
      else ret (Some (seen_instance d)))"

definition host_changed :: "params \<Rightarrow> reply option \<Rightarrow> error + bool" where
  "host_changed p inst =
     (case sub_state inst of
        Inl err \<Rightarrow> Inl err
      | Inr st0 \<Rightarrow>
          (case get_hostname inst of
             Inl err \<Rightarrow> Inl err
           | Inr h \<Rightarrow>
               Inr (lower st0 \<in> set [''starting'', ''running''] \<and> h \<noteq> None \<and> host p \<noteq> None
                    \<and> host p \<noteq> h)))"

definition migrate :: "ext \<Rightarrow> params \<Rightarrow> reply option \<Rightarrow> reply option m" where
  "migrate e p inst =
     bindm (lift (host_changed p inst)) (\<lambda>moved.
       if moved then
         bindm set_changed (\<lambda>_.
         bindm (lift (sub_id inst)) (\<lambda>vid.
         bindm (get_host_id e p) (\<lambda>hostid.
           if \<not> check_mode p then
             bindm (query_api e (MigrateVirtualMachine vid hostid)) (\<lambda>res.
               poll e (Some res) ''virtualmachine'')
           else ret inst)))
       else ret inst)"

definition update_instance :: "ext \<Rightarrow> params \<Rightarrow> reply \<Rightarrow> bool \<Rightarrow> reply option m" where
  "update_instance e p inst start_vm =
     bindm (detect_changes e p inst) (\<lambda>d.
     bindm (apply_or_warn e p d start_vm) (\<lambda>inst'.
       migrate e p inst'))"

subsection \<open>Present\<close>

text \<open>
  \<open>present_instance\<close>: an instance that is not found is deployed, one that is found is
  recovered if need be and updated; then it is read again and its tags are reconciled.
\<close>

definition present_instance :: "ext \<Rightarrow> params \<Rightarrow> bool \<Rightarrow> reply option m" where
  "present_instance e p start_vm =
     bindm (get_instance e p False) (\<lambda>found.
     bindm (case found of
              None \<Rightarrow> deploy_instance e p start_vm
            | Some inst \<Rightarrow>
                if \<not> truthy_reply found then deploy_instance e p start_vm
                else
                  bindm (recover_instance e p inst) (\<lambda>inst.
                    update_instance e p inst start_vm)) (\<lambda>inst.
       if truthy_reply inst then
         bindm (get_instance e p True) (\<lambda>inst.
         bindm (ask (\<lambda>h. ensure_tags e h inst)) (\<lambda>inst.
         bindm (set_self_instance inst) (\<lambda>_. ret inst)))
       else ret inst))"

section \<open>Observing a run\<close>

text \<open>
  The mutating commands among the calls sent between two states (the polls left out).
\<close>

definition mutating :: "call \<Rightarrow> bool" where
  "mutating c = (case c of PollJob _ _ \<Rightarrow> False | _ \<Rightarrow> True)"

definition issued :: "st \<Rightarrow> st \<Rightarrow> call list" where
  "issued s s' = filter mutating (drop (length (trace s)) (trace s'))"

text \<open>The step of the update cycle that a mutating command belongs to.\<close>

datatype step =
  StopStep | OfferingStep | UpdateStep | SshKeyStep | ResizeStep | StartStep | MigrateStep | OtherStep

definition step_of :: "call \<Rightarrow> step" where
  "step_of c =
     (case c of
        StopVirtualMachine _ \<Rightarrow> StopStep
      | ChangeServiceForVirtualMachine _ \<Rightarrow> OfferingStep
      | UpdateVirtualMachine _ \<Rightarrow> UpdateStep
      | ResetSSHKeyForVirtualMachine _ \<Rightarrow> SshKeyStep
      | ResizeVolume _ \<Rightarrow> ResizeStep
      | StartVirtualMachine _ _ \<Rightarrow> StartStep
      | MigrateVirtualMachine _ _ \<Rightarrow> MigrateStep
      | _ \<Rightarrow> OtherStep)"

definition steps :: "call list \<Rightarrow> step list" where
  "steps cs = map step_of (filter mutating cs)"

text \<open>
  The update cycle in the words of the specification: between the stop and the restart,
  the offering change, the attribute and security-group update, the SSH key reset and the
  root volume resize, in this order, each only if its axis is true.
\<close>

definition planned_steps :: "detected \<Rightarrow> step list" where
  "planned_steps d =
     (if service_offering_axis d then [OfferingStep] else [])
     @ (if instance_axis d \<or> security_groups_axis d then [UpdateStep] else [])
     @ (if ssh_keys_axis d then [SshKeyStep] else [])
     @ (if root_disk_size_axis d then [ResizeStep] else [])"

text \<open>
  What each command of the cycle carries: the prepared offering arguments, the prepared
  attribute arguments (with the desired security groups joined by commas when that axis is
  true), the desired SSH keys, the prepared volume arguments.  The cycle sends no recover,
  destroy or deploy command.
\<close>

definition expected_call :: "params \<Rightarrow> detected \<Rightarrow> call \<Rightarrow> bool" where
  "expected_call p d c =
     (case c of
        ChangeServiceForVirtualMachine a \<Rightarrow>
          service_offering_axis d \<and> a = args_service_offering d
      | UpdateVirtualMachine a \<Rightarrow>
          (instance_axis d \<or> security_groups_axis d)
          \<and> a = (if security_groups_axis d
                 then (args_instance_update d)
                        \<lparr>securitygroupnames := map_option (join '','') (security_groups p)\<rparr>
                 else args_instance_update d)
      | ResetSSHKeyForVirtualMachine a \<Rightarrow> ssh_keys_axis d \<and> ssh_keypairs a = ssh_keys p
      | ResizeVolume a \<Rightarrow> root_disk_size_axis d \<and> a = args_volume_update d
      | RecoverVirtualMachine _ \<Rightarrow> False
      | DestroyVirtualMachine _ _ \<Rightarrow> False
      | DeployVirtualMachine _ \<Rightarrow> False
      | _ \<Rightarrow> True)"

text \<open>
  A run of \<open>f\<close> from \<open>s\<close> sends the steps \<open>L\<close>: all of them when it returns, the first ones
  when it raises; every call it sends satisfies \<open>G\<close>.
\<close>

definition sends :: "'a m \<Rightarrow> st \<Rightarrow> step list \<Rightarrow> (call \<Rightarrow> bool) \<Rightarrow> bool" where
  "sends f s L G \<longleftrightarrow>
     (\<exists>cs. trace (snd (f s)) = trace s @ cs \<and> prefix (steps cs) L
          \<and> (\<not> isl (fst (f s)) \<longrightarrow> steps cs = L) \<and> list_all G cs)"

text \<open>A method that only reads: it leaves the state as it found it.\<close>

definition reads :: "'a m \<Rightarrow> bool" where
  "reads f \<longleftrightarrow> (\<forall>s. snd (f s) = s)"

text \<open>A method that never clears the changed flag.\<close>

definition keeps_changed :: "'a m \<Rightarrow> bool" where
  "keeps_changed f \<longleftrightarrow> (\<forall>s. result_changed s \<longrightarrow> result_changed (snd (f s)))"

text \<open>A method that sends nothing, and a method that raises having sent nothing.\<close>

definition keeps_trace :: "'a m \<Rightarrow> bool" where
  "keeps_trace f \<longleftrightarrow> (\<forall>s. trace (snd (f s)) = trace s)"

definition fails_quietly :: "'a m \<Rightarrow> bool" where
  "fails_quietly f \<longleftrightarrow> (\<forall>s. isl (fst (f s)) \<and> trace (snd (f s)) = trace s)"

definition is_deploy :: "call \<Rightarrow> bool" where
  "is_deploy c = (case c of DeployVirtualMachine _ \<Rightarrow> True | _ \<Rightarrow> False)"

subsection \<open>A control plane that reports a stopped instance stopped\<close>

text \<open>
  No start command is among the calls; the value is a virtual machine that is stopped or
  stopping; the instance \<open>c\<close> is down after the calls \<open>cs\<close>: it was stopped or stopping
  before them, or a stop command is among them.
\<close>

definition unstarted :: "call list \<Rightarrow> bool" where
  "unstarted h \<longleftrightarrow> list_all (\<lambda>c. step_of c \<noteq> StartStep) h"

definition parked :: "reply option \<Rightarrow> bool" where
  "parked r =
     (case r of
        Some (VM w) \<Rightarrow> lower (state w) \<in> set [''stopped'', ''stopping'']
      | _ \<Rightarrow> False)"

definition down :: "vm \<Rightarrow> call list \<Rightarrow> bool" where
  "down c cs \<longleftrightarrow> parked (Some (VM c)) \<or> list_ex (\<lambda>x. step_of x = StopStep) cs"

text \<open>
  The control plane the restart of the update cycle counts on, for the instance \<open>c\<close> and
  from the calls \<open>t0\<close> already sent.  Whatever calls \<open>cs\<close> follow, as long as no start command
  is among them and the instance is down: the job of a stop or of an SSH key reset results
  in the instance stopped or stopping, and the offering change and the attribute update are
  answered with the instance stopped or stopping.  The stop and the SSH key reset are
  answered with a job handle.  Polling a value that is a virtual machine already gives it
  back.
\<close>

definition settles_stopped :: "ext \<Rightarrow> vm \<Rightarrow> call list \<Rightarrow> bool" where
  "settles_stopped e c t0 \<longleftrightarrow>
     (\<forall>cs x j r. unstarted cs \<longrightarrow> down c (cs @ [x]) \<longrightarrow> step_of x \<in> {StopStep, SshKeyStep} \<longrightarrow>
          api e (t0 @ cs) x = Inr (Job j) \<longrightarrow>
          poll_job e (t0 @ cs @ [x]) (Some (Job j)) ''virtualmachine'' = Inr r \<longrightarrow> parked r)
     \<and> (\<forall>cs x v. unstarted cs \<longrightarrow> down c cs \<longrightarrow> step_of x \<in> {OfferingStep, UpdateStep} \<longrightarrow>
          api e (t0 @ cs) x = Inr (Envelope v) \<longrightarrow> parked (Some (VM v)))
     \<and> (\<forall>h x r. step_of x \<in> {StopStep, SshKeyStep} \<longrightarrow> api e h x = Inr r \<longrightarrow> (\<exists>j. r = Job j))
     \<and> (\<forall>h w k r. poll_job e h (Some (VM w)) k = Inr r \<longrightarrow> r = Some (VM w))"

text \<open>
  A state reached from the calls \<open>t0\<close> without a start command, where the instance \<open>c\<close> is
  down and \<open>self.instance\<close> is stopped or stopping; and a method that, when it returns,
  leaves such a state such.
\<close>

definition held :: "vm \<Rightarrow> call list \<Rightarrow> st \<Rightarrow> bool" where
  "held c t0 s \<longleftrightarrow>
     take (length t0) (trace s) = t0
     \<and> unstarted (drop (length t0) (trace s))
     \<and> down c (drop (length t0) (trace s))
     \<and> parked (self_instance s)"

definition stays_parked :: "vm \<Rightarrow> call list \<Rightarrow> 'a m \<Rightarrow> bool" where
  "stays_parked c t0 f \<longleftrightarrow> (\<forall>s x s'. held c t0 s \<longrightarrow> f s = (Inr x, s') \<longrightarrow> held c t0 s')"

section \<open>A concrete control plane\<close>

text \<open>
  A small cooperative control plane, one virtual machine and one set of parameters, on
  which the properties below are evaluated.
\<close>

definition demo_vm :: vm where
  "demo_vm =
     \<lparr>vm_id = ''vm-1'', vm_name = ''web-vm-1'', displayname = ''web-vm-1'', state = ''Running'',
      hostname = Some ''host-01'', account = None, domainid = None, projectid = None,
      keypairs = Some (KPList []), keypair = None, securitygroup = Some [''Web'', ''db''],
      userdata = Some []\<rparr>"

definition demo_fingerprint :: "string \<Rightarrow> string option" where
  "demo_fingerprint k = (if k = ''alice'' then Some ''aa:bb'' else None)"

definition demo_big_template :: tmpl where
  "demo_big_template =
     \<lparr>tmpl_displaytext = None, tmpl_name = ''debian'', tmpl_id = ''t-big'',
      tmpl_size = 3221225472, tmpl_hypervisor = Some ''KVM''\<rparr>"

definition demo_small_template :: tmpl where
  "demo_small_template =
     \<lparr>tmpl_displaytext = None, tmpl_name = ''debian'', tmpl_id = ''t-small'',
      tmpl_size = 2147483648, tmpl_hypervisor = Some ''KVM''\<rparr>"

definition demo_iso :: iso_rec where
  "demo_iso =
     \<lparr>iso_displaytext = ''installer'', iso_name = ''installer'', iso_id = ''iso-1'',
      iso_size = 3221225472, iso_hypervisor = Some ''KVM''\<rparr>"

text \<open>
  The instance of the demonstration runs until it is stopped: after the calls \<open>h\<close> it is
  stopped when the last stop or start command among them is a stop, running otherwise.
\<close>

definition demo_state :: "call list \<Rightarrow> string" where
  "demo_state h =
     (case filter (\<lambda>c. step_of c \<in> set [StopStep, StartStep]) h of
        [] \<Rightarrow> ''Running''
      | c # cs \<Rightarrow> if step_of (last (c # cs)) = StopStep then ''Stopped'' else ''Running'')"

definition demo_now :: "call list \<Rightarrow> vm" where
  "demo_now h = demo_vm\<lparr>state := demo_state h\<rparr>"

definition demo_api :: "call list \<Rightarrow> call \<Rightarrow> error + reply" where
  "demo_api h c =
     Inr (case c of
            StopVirtualMachine _ \<Rightarrow> Job ''stop''
          | StartVirtualMachine _ _ \<Rightarrow> Job ''start''
          | ChangeServiceForVirtualMachine _ \<Rightarrow> Envelope (demo_now h)
          | UpdateVirtualMachine _ \<Rightarrow> Envelope (demo_now h)
          | ResetSSHKeyForVirtualMachine _ \<Rightarrow> Job ''reset''
          | ResizeVolume _ \<Rightarrow> Job ''resize''
          | MigrateVirtualMachine _ _ \<Rightarrow> Job ''migrate''
          | RecoverVirtualMachine _ \<Rightarrow> Envelope (demo_vm\<lparr>state := ''Stopped''\<rparr>)
          | DestroyVirtualMachine _ _ \<Rightarrow> Job ''destroy''
          | DeployVirtualMachine _ \<Rightarrow> Job ''deploy''
          | PollJob _ _ \<Rightarrow> Empty)"

text \<open>
  The result of a job is the instance as it is then.  A value that is no job handle is
  given back.
\<close>

definition demo_poll_job :: "call list \<Rightarrow> reply option \<Rightarrow> string \<Rightarrow> error + reply option" where
  "demo_poll_job h job k =
     Inr (case job of
            Some (Job j) \<Rightarrow> Some (VM (demo_now h))
          | _ \<Rightarrow> job)"

definition demo_ext :: ext where
  "demo_ext =
     \<lparr>api = demo_api,
      poll_job = demo_poll_job,
      has_changed_offering = (\<lambda>args inst. serviceofferingid args \<noteq> None),
      has_changed_instance = (\<lambda>args inst. update_displayname args \<noteq> None),
      listVirtualMachines = (\<lambda>h. Inr [demo_vm]),
      listSSHKeyPairs = (\<lambda>h k. Inr (demo_fingerprint k)),
      listVolumes = (\<lambda>h vid. Inr (Some [\<lparr>volume_id = ''vol-1'', volume_size = 21474836480\<rparr>])),
      listTemplates = (\<lambda>h. Inr [demo_big_template, demo_small_template]),
      listIsos = (\<lambda>h. Inr [demo_iso]),
      listNetworks = (\<lambda>h. Inr [\<lparr>net_displaytext = ''net-a'', net_name = ''net-a'', net_id = ''n-1''\<rparr>]),
      listServiceOfferings = (\<lambda>h. Inr (Some [\<lparr>res_name = ''tiny'', res_id = ''so-1''\<rparr>,
                                              \<lparr>res_name = ''large'', res_id = ''so-2''\<rparr>])),
      listHosts = (\<lambda>h. Inr (Some [\<lparr>res_name = ''host-01'', res_id = ''h-1''\<rparr>,
                                   \<lparr>res_name = ''host-02'', res_id = ''h-2''\<rparr>])),
      listClusters = (\<lambda>h. Inr None),
      listPods = (\<lambda>h. Inr None),
      listUserData = (\<lambda>h. Inr None),
      repr_user_data = (\<lambda>r. ''{}''),
      getVirtualMachineUserData = (\<lambda>h vid. Inr None),
      get_zone = (\<lambda>h. Inr (Some ''zone-1'')),
      get_account = (\<lambda>h. Inr None),
      get_domain = (\<lambda>h. Inr None),
      get_project = (\<lambda>h. Inr None),
      get_disk_offering = (\<lambda>h. Inr None),
      get_hypervisor = (\<lambda>h. Inr (Some ''KVM'')),
      get_os_type = (\<lambda>h. Inr None),
      b64encode = (\<lambda>x. x),
      str_lower = lower,
      repr_names = (\<lambda>l. ''['' @ join '', '' (map quoted l) @ '']''),
      ensure_tags = (\<lambda>h inst. Inr inst)\<rparr>"

text \<open>
  A control plane on which the instance is still running when its stop job is over: every
  job result is the running instance.
\<close>

definition stuck_poll_job :: "call list \<Rightarrow> reply option \<Rightarrow> string \<Rightarrow> error + reply option" where
  "stuck_poll_job h job k =
     Inr (case job of Some (Job j) \<Rightarrow> Some (VM demo_vm) | _ \<Rightarrow> job)"

definition stuck_ext :: ext where
  "stuck_ext = demo_ext\<lparr>poll_job := stuck_poll_job\<rparr>"

definition demo_params :: params where
  "demo_params =
     \<lparr>name = Some ''web-vm-1'', display_name = None, group = None, service_offering = None,
      cpu = None, cpu_speed = None, memory = None, template = None, iso = None,
      template_filter = ''executable'', networks = None, ip_to_networks = None,
      ip_address = None, ip6_address = None, disk_size = None, root_disk_size = None,
      keyboard = None, host = None, cluster = None, pod = None, security_groups = None,
      affinity_groups = None, user_data = None, user_data_name = None,
      user_data_details = None, ssh_keys = None, force = False, details = None,
      poll_async = True, allow_root_disk_shrink = False, check_mode = False\<rparr>"

definition demo_st :: "vm \<Rightarrow> st" where
  "demo_st v =
     \<lparr>self_instance = Some (VM v), self_template = None, self_iso = None,
      result_changed = False, warnings = [], trace = []\<rparr>"

text \<open>An update of the running demo instance that touches all five axes, forced.\<close>

definition demo_update_params :: params where
  "demo_update_params =
     demo_params\<lparr>force := True, service_offering := Some ''large'',
                 display_name := Some ''web'', security_groups := Some [''web'', ''cache''],
                 ssh_keys := Some [''alice''], root_disk_size := Some 25\<rparr>"

definition demo_detected :: detected where
  "demo_detected =
     \<lparr>args_service_offering = \<lparr>offering_vm_id = ''vm-1'', serviceofferingid = Some ''so-2''\<rparr>,
      service_offering_axis = True,
      args_instance_update =
        \<lparr>update_vm_id = ''vm-1'', update_userdataid = None, update_userdata = None,
         userdatadetails = None, ostypeid = None, update_group = None,
         update_displayname = Some ''web'', securitygroupnames = None\<rparr>,
      instance_axis = True,
      ssh_keys_axis = True,
      security_groups_axis = True,
      args_volume_update = \<lparr>resize_id = Some ''vol-1'', resize_size = Some 25, shrinkok = None\<rparr>,
      root_disk_size_axis = True,
      seen_instance = VM demo_vm\<rparr>"

text \<open>A deployment that names a template and gives both forms of network attachment.\<close>

definition demo_deploy_params :: params where
  "demo_deploy_params =
     demo_params\<lparr>template := Some ''debian'', networks := Some [''net-a''],
                 ip_to_networks := Some [\<lparr>mapping_network = ''net-a'',
                                          mapping_ip = Some ''10.1.1.1''\<rparr>]\<rparr>"

text \<open>A forced resize of the root volume of the running demo instance, nothing else.\<close>

definition demo_resize_params :: params where
  "demo_resize_params = demo_params\<lparr>force := True, root_disk_size := Some 25\<rparr>"

text \<open>
  A deployment with both forms of network attachment, one network of which does not
  exist.
\<close>

definition demo_deploy_unknown_network :: params where
  "demo_deploy_unknown_network = demo_deploy_params\<lparr>networks := Some [''net-a'', ''net-z'']\<rparr>"

definition demo_empty_st :: st where
  "demo_empty_st =
     \<lparr>self_instance = None, self_template = None, self_iso = None,
      result_changed = False, warnings = [], trace = []\<rparr>"

section \<open>The claims as the specification words them\<close>

text \<open>
  SSH keys, in the words of the specification: nothing to do when the parameter is
  unspecified; a change when the desired list is empty and the instance has a key;
  otherwise a change exactly when some key of the instance has no resolvable fingerprint
  or a fingerprint that is not among the desired ones.  \<open>live\<close> is the list of keys the
  instance has.
\<close>

definition live_keys :: "vm \<Rightarrow> string list" where
  "live_keys v =
     (case keypairs v of
        Some (KPList ks) \<Rightarrow> ks
      | Some (KPScalar k) \<Rightarrow> [k]
      | None \<Rightarrow> (case keypair v of Some k \<Rightarrow> [k] | None \<Rightarrow> []))"

definition spec_ssh_keys_changed ::
  "(string \<Rightarrow> string option) \<Rightarrow> string list option \<Rightarrow> string list \<Rightarrow> bool" where
  "spec_ssh_keys_changed fp wanted live =
     (case wanted of
        None \<Rightarrow> False
      | Some w \<Rightarrow>
          if w = [] \<and> live \<noteq> [] then True
          else list_ex (\<lambda>k. \<not> truthy_str (fp k) \<or> fp k \<notin> set (map fp w)) live)"

section \<open>Verified properties\<close>

subsection \<open>Sequencing lemmas\<close>

lemma bindm_ret [simp]: "bindm (ret x) g = g x"
  by (simp add: bindm_def ret_def)

lemma bindm_raise [simp]: "bindm (raise err) g = raise err"
  by (simp add: bindm_def raise_def fun_eq_iff)

subsection \<open>Security groups\<close>

lemma collect_instance_groups_eq:
  "collect_instance_groups e wanted gs names =
     (if str_lower e ` set gs \<subseteq> set wanted then Some (names @ map (str_lower e) gs) else None)"
  by (induction gs arbitrary: names) auto

lemma missing_on_instance_eq: "missing_on_instance gs names \<longleftrightarrow> \<not> set gs \<subseteq> set names"
  by (induction gs) auto

text \<open>
  Claim C4.  \<open>security_groups_changed\<close> returns false when the \<open>security_groups\<close> parameter is
  unspecified; when it is specified, it returns false exactly when the desired names and
  the names of the instance's security groups are the same set once lowered with
  \<open>str.lower()\<close>, whatever that function does to a name, and true otherwise.  (The method
  reads \<open>self.instance\<close>, so with nothing cached it raises.)
\<close>

theorem security_groups_changed_sets:
  "security_groups_changed e p s =
     (case security_groups p of
        None \<Rightarrow> (Inr False, s)
      | Some wanted \<Rightarrow>
          (case self_instance s of
             None \<Rightarrow> (Inl AttributeError, s)
           | Some inst \<Rightarrow>
               (Inr (str_lower e ` set wanted
                       \<noteq> str_lower e ` set (instance_security_groups inst)), s)))"
  by (auto simp: security_groups_changed_def get_self_instance_def bindm_def ret_def raise_def
        collect_instance_groups_eq missing_on_instance_eq
      split: option.splits)

theorem security_groups_changed_sets_witness:
  "security_groups_changed demo_ext (demo_params\<lparr>security_groups := Some [''DB'', ''web'']\<rparr>)
       (demo_st demo_vm)
     = (Inr False, demo_st demo_vm)
   \<and> security_groups_changed demo_ext (demo_params\<lparr>security_groups := Some [''DB'', ''web'']\<rparr>)
       (demo_st (demo_vm\<lparr>securitygroup := Some [''Web'']\<rparr>))
     = (Inr True, demo_st (demo_vm\<lparr>securitygroup := Some [''Web'']\<rparr>))
   \<and> security_groups_changed demo_ext demo_params (demo_st demo_vm) = (Inr False, demo_st demo_vm)"
  using security_groups_changed_sets
          [of demo_ext "demo_params\<lparr>security_groups := Some [''DB'', ''web'']\<rparr>" "demo_st demo_vm"]
        security_groups_changed_sets
          [of demo_ext "demo_params\<lparr>security_groups := Some [''DB'', ''web'']\<rparr>"
              "demo_st (demo_vm\<lparr>securitygroup := Some [''Web'']\<rparr>)"]
        security_groups_changed_sets [of demo_ext demo_params "demo_st demo_vm"]
  by (simp add: demo_ext_def demo_params_def demo_st_def demo_vm_def instance_security_groups_def
        lower_def lower_char_def insert_commute singleton_insert_inj_eq')

subsection \<open>Frames of the read-only methods\<close>

lemma bindm_apply:
  "bindm f g s = (case f s of (Inl err, s') \<Rightarrow> (Inl err, s') | (Inr x, s') \<Rightarrow> g x s')"
  by (simp add: bindm_def)

lemma issued_same [simp]: "trace s' = trace s \<Longrightarrow> issued s s' = []"
  by (simp add: issued_def)

lemma scope_args_frame: "scope_args e s = (r, s') \<Longrightarrow> s' = s"
  by (auto simp: scope_args_def bindm_apply ask_def ret_def split: sum.splits)

lemma get_instance_frame:
  assumes "get_instance e p refresh s = (r, s')"
  shows "s' = s\<lparr>self_instance := self_instance s'\<rparr>"
  using assms
  by (auto simp: get_instance_def bindm_apply get_self_instance_def ret_def raise_def ask_def
        set_self_instance_def
      split: if_splits prod.splits sum.splits list.splits option.splits
      dest!: scope_args_frame)

lemma get_instance_cached:
  "truthy_reply (self_instance s) \<Longrightarrow> get_instance e p False s = (Inr (self_instance s), s)"
  by (simp add: get_instance_def bindm_apply get_self_instance_def ret_def)

text \<open>
  Claim C8.  \<open>start_instance\<close> on an instance whose state is starting or running, and
  \<open>stop_instance\<close> on one whose state is stopping or stopped, return the instance that
  \<open>get_instance\<close> gave, send nothing to the control plane and leave the changed flag
  as it was (\<open>get_instance\<close> may fill \<open>self.instance\<close>; nothing else moves).
\<close>

theorem satisfied_target_is_noop:
  assumes "get_instance e p False s = (Inr (Some (VM v)), s')"
  shows "(lower (state v) \<in> {''starting'', ''running''} \<longrightarrow>
            start_instance e p s = (Inr (Some (VM v)), s'))
       \<and> (lower (state v) \<in> {''stopping'', ''stopped''} \<longrightarrow>
            stop_instance e p s = (Inr (Some (VM v)), s'))
       \<and> issued s s' = [] \<and> trace s' = trace s \<and> result_changed s' = result_changed s"
proof -
  from get_instance_frame [OF assms] have "s' = s\<lparr>self_instance := self_instance s'\<rparr>" .
  then have "trace s' = trace s" "result_changed s' = result_changed s"
    by (metis st.select_convs st.surjective st.update_convs)+
  moreover have "lower (state v) \<in> {''starting'', ''running''} \<longrightarrow>
            start_instance e p s = (Inr (Some (VM v)), s')"
    using assms
    by (simp add: start_instance_def bindm_apply truthy_reply_def lift_def sub_state_def
        item_state_def ret_def)
  moreover have "lower (state v) \<in> {''stopping'', ''stopped''} \<longrightarrow>
            stop_instance e p s = (Inr (Some (VM v)), s')"
    using assms
    by (simp add: stop_instance_def bindm_apply truthy_reply_def lift_def sub_state_def
        item_state_def ret_def)
  ultimately show ?thesis by simp
qed

theorem satisfied_target_is_noop_witness:
  "start_instance demo_ext demo_params (demo_st demo_vm) = (Inr (Some (VM demo_vm)), demo_st demo_vm)
   \<and> stop_instance demo_ext demo_params (demo_st (demo_vm\<lparr>state := ''Stopped''\<rparr>))
       = (Inr (Some (VM (demo_vm\<lparr>state := ''Stopped''\<rparr>))), demo_st (demo_vm\<lparr>state := ''Stopped''\<rparr>))"
proof -
  have a: "get_instance demo_ext demo_params False (demo_st demo_vm)
             = (Inr (Some (VM demo_vm)), demo_st demo_vm)"
    using get_instance_cached [of "demo_st demo_vm" demo_ext demo_params]
    by (simp add: demo_st_def truthy_reply_def)
  have b: "get_instance demo_ext demo_params False (demo_st (demo_vm\<lparr>state := ''Stopped''\<rparr>))
             = (Inr (Some (VM (demo_vm\<lparr>state := ''Stopped''\<rparr>))), demo_st (demo_vm\<lparr>state := ''Stopped''\<rparr>))"
    using get_instance_cached [of "demo_st (demo_vm\<lparr>state := ''Stopped''\<rparr>)" demo_ext demo_params]
    by (simp add: demo_st_def truthy_reply_def)
  show ?thesis
    using satisfied_target_is_noop [OF a] satisfied_target_is_noop [OF b]
    by (simp add: demo_vm_def lower_def lower_char_def)
qed

subsection \<open>SSH keys\<close>

lemma get_ssh_keypair_ok:
  assumes "get_domain e (trace s) = Inr d" "get_account e (trace s) = Inr a"
    "get_project e (trace s) = Inr pr" "listSSHKeyPairs e (trace s) k = Inr f"
  shows "get_ssh_keypair e k fom s =
           (if f = None \<and> fom then (Inl (Fail (''SSH key not found: '' @ k)), s) else (Inr f, s))"
  using assms
  by (auto simp: get_ssh_keypair_def bindm_apply ask_def ret_def raise_def split: option.splits)

lemma mapm_fingerprints:
  assumes "get_domain e (trace s) = Inr d" "get_account e (trace s) = Inr a"
    "get_project e (trace s) = Inr pr" "\<forall>k. listSSHKeyPairs e (trace s) k = Inr (fp k)"
    "\<forall>k\<in>set ks. fp k \<noteq> None"
  shows "mapm (\<lambda>k. get_ssh_keypair e k True) ks s = (Inr (map fp ks), s)"
  using assms
proof (induction ks)
  case Nil
  then show ?case by (simp add: ret_def)
next
  case (Cons k ks)
  then show ?case
    by (simp add: bindm_apply get_ssh_keypair_ok [where f = "fp k"] ret_def)
qed

lemma mapm_fingerprints_fail:
  assumes "get_domain e (trace s) = Inr d" "get_account e (trace s) = Inr a"
    "get_project e (trace s) = Inr pr" "\<forall>k. listSSHKeyPairs e (trace s) k = Inr (fp k)"
    "\<exists>k\<in>set ks. fp k = None"
  shows "mapm (\<lambda>k. get_ssh_keypair e k True) ks s
           = (Inl (Fail (''SSH key not found: '' @ hd (filter (\<lambda>k. fp k = None) ks))), s)"
  using assms
proof (induction ks)
  case Nil
  then show ?case by simp
next
  case (Cons k ks)
  show ?case
  proof (cases "fp k = None")
    case True
    then show ?thesis
      using Cons.prems by (simp add: bindm_apply get_ssh_keypair_ok [where f = "fp k"])
  next
    case False
    then have "\<exists>k\<in>set ks. fp k = None" using Cons.prems(5) by auto
    from Cons.IH [OF Cons.prems(1-4) this] False show ?thesis
      using Cons.prems(1-4) by (auto simp: bindm_apply get_ssh_keypair_ok [where f = "fp k"])
  qed
qed

lemma ssh_keys_loop_eq:
  assumes "get_domain e (trace s) = Inr d" "get_account e (trace s) = Inr a"
    "get_project e (trace s) = Inr pr" "\<forall>k. listSSHKeyPairs e (trace s) k = Inr (fp k)"
    "wanted \<noteq> []"
  shows "ssh_keys_loop e wanted fps live s =
           (Inr (list_ex (\<lambda>k. \<not> truthy_str (fp k) \<or> fp k \<notin> set fps) live), s)"
  using assms
proof (induction live)
  case Nil
  then show ?case by (simp add: ret_def)
next
  case (Cons k live)
  then show ?case
    by (simp add: bindm_apply get_ssh_keypair_ok [where f = "fp k"] ret_def)
qed

lemma ssh_keys_loop_empty_wanted:
  "live \<noteq> [] \<Longrightarrow> ssh_keys_loop e [] fps live s = (Inr True, s)"
  by (cases live) (simp_all add: ret_def)

lemma instance_ssh_keys_nonempty: "instance_ssh_keys inst \<noteq> []"
  by (auto simp: instance_ssh_keys_def split: reply.splits option.splits keypairs_wire.splits list.splits)


lemma demo_scope:
  "get_domain demo_ext h = Inr None" "get_account demo_ext h = Inr None"
  "get_project demo_ext h = Inr None" "get_zone demo_ext h = Inr (Some ''zone-1'')"
  "\<forall>k. listSSHKeyPairs demo_ext h k = Inr (demo_fingerprint k)"
  by (simp_all add: demo_ext_def)



text \<open>
  Claim C10.  For an instance with no SSH key at all (\<open>keypairs\<close> empty or absent, no
  \<open>keypair\<close>), the list that \<open>ssh_keys_changed\<close> walks is the one-element list holding the
  empty string, and with \<open>ssh_keys = []\<close> the method returns true.
\<close>

theorem ssh_keys_changed_without_keys:
  assumes "ssh_keys p = Some []" "self_instance s = Some (VM v)"
    "keypairs v = None \<or> keypairs v = Some (KPList [])" "keypair v = None"
  shows "instance_ssh_keys (VM v) = [[]] \<and> ssh_keys_changed e p s = (Inr True, s)"
proof -
  have l: "instance_ssh_keys (VM v) = [[]]"
    using assms(3,4) by (auto simp: instance_ssh_keys_def truthy_str_def)
  then show ?thesis
    using assms(1,2)
    by (simp add: ssh_keys_changed_def bindm_apply get_self_instance_def ret_def)
qed

theorem ssh_keys_changed_without_keys_witness:
  "instance_ssh_keys (VM demo_vm) = [[]]
   \<and> ssh_keys_changed demo_ext (demo_params\<lparr>ssh_keys := Some []\<rparr>) (demo_st demo_vm)
       = (Inr True, demo_st demo_vm)"
  using ssh_keys_changed_without_keys
          [of "demo_params\<lparr>ssh_keys := Some []\<rparr>" "demo_st demo_vm" demo_vm demo_ext]
  by (simp add: demo_params_def demo_st_def demo_vm_def)

subsection \<open>Root disk size\<close>

text \<open>
  Claim C5.  The root-disk-size axis is evaluated only when \<open>root_disk_size\<close> is given.  It
  shifts the size of the one ROOT volume right by 30 bits, that is, divides it by \<open>2 ^ 30\<close>,
  and signals a change exactly when the desired size differs from that; the arguments
  prepared for the resize carry the volume's id and the desired size, and they are the
  arguments of the \<open>resizeVolume\<close> command.
\<close>

theorem root_disk_size_axis_gib:
  "(root_disk_size p = None \<longrightarrow>
      detect_root_disk_size e p inst s
        = (Inr (\<lparr>resize_id = None, resize_size = None, shrinkok = None\<rparr>, False), s))
   \<and> (\<forall>wanted vid vol.
        root_disk_size p = Some wanted \<longrightarrow> item_id inst = Inr vid \<longrightarrow>
        listVolumes e (trace s) vid = Inr (Some [vol]) \<longrightarrow>
        (\<exists>args. detect_root_disk_size e p inst s
                  = (Inr (args, wanted \<noteq> volume_size vol div 2 ^ 30), s)
               \<and> resize_id args = Some (volume_id vol) \<and> resize_size args = Some wanted))
   \<and> (root_disk_size_axis d \<longrightarrow>
        (\<exists>rest. trace (snd (resize_root_disk e d s))
                  = trace s @ ResizeVolume (args_volume_update d) # rest))"
  by (auto simp: detect_root_disk_size_def resize_root_disk_def bindm_apply lift_def ask_def
        ret_def query_api_def poll_def drop_bit_eq_div
      split: sum.splits prod.splits)

theorem root_disk_size_axis_gib_witness:
  "(\<exists>args. detect_root_disk_size demo_ext (demo_params\<lparr>root_disk_size := Some 20\<rparr>) (VM demo_vm)
             (demo_st demo_vm) = (Inr (args, False), demo_st demo_vm)
          \<and> resize_id args = Some ''vol-1'' \<and> resize_size args = Some 20)
   \<and> (\<exists>args. detect_root_disk_size demo_ext (demo_params\<lparr>root_disk_size := Some 25\<rparr>) (VM demo_vm)
             (demo_st demo_vm) = (Inr (args, True), demo_st demo_vm)
          \<and> resize_id args = Some ''vol-1'' \<and> resize_size args = Some 25)"
proof -
  have v: "listVolumes demo_ext (trace (demo_st demo_vm)) ''vm-1''
             = Inr (Some [\<lparr>volume_id = ''vol-1'', volume_size = 21474836480\<rparr>])"
    by (simp add: demo_ext_def)
  have i: "item_id (VM demo_vm) = Inr ''vm-1''"
    by (simp add: item_id_def demo_vm_def)
  have a: "root_disk_size (demo_params\<lparr>root_disk_size := Some w\<rparr>) = Some w" for w
    by simp
  show ?thesis
    using root_disk_size_axis_gib [of "demo_params\<lparr>root_disk_size := Some 20\<rparr>" demo_ext
            "VM demo_vm" "demo_st demo_vm", THEN conjunct2, THEN conjunct1, rule_format, OF a i v]
      root_disk_size_axis_gib [of "demo_params\<lparr>root_disk_size := Some 25\<rparr>" demo_ext
            "VM demo_vm" "demo_st demo_vm", THEN conjunct2, THEN conjunct1, rule_format, OF a i v]
    by simp
qed

subsection \<open>Boot source\<close>

lemma scan_templates_eq:
  "scan_templates t r cs =
     find (\<lambda>c. template_matches t c \<and> \<not> template_too_big r c) cs"
  by (induction cs) auto

lemma scope_zone_args_ok:
  assumes "get_account e (trace s) = Inr a" "get_domain e (trace s) = Inr d"
    "get_project e (trace s) = Inr pr" "get_zone e (trace s) = Inr z"
  shows "scope_zone_args e s = (Inr (), s)"
  using assms
  by (simp add: scope_zone_args_def scope_args_def bindm_apply ask_def ret_def)

text \<open>
  Claim C6, amended.  When a template is resolved under a non-zero root-disk-size
  constraint, every candidate whose size in bytes exceeds the constraint times \<open>2 ^ 30\<close>
  is skipped: the result is the first candidate that matches the name and fits, and when
  there is none the resolution fails with a not-found message that includes the
  constraint.  An ISO is resolved by name alone, whatever the constraint: the result is
  the first candidate that matches the name, and when there is none the resolution fails
  with a not-found message that does not mention a size.  The scope resolvers are taken to
  answer, and nothing to be cached yet.
\<close>

theorem template_size_constraint:
  assumes "get_account e (trace s) = Inr a" "get_domain e (trace s) = Inr d"
    "get_project e (trace s) = Inr pr" "get_zone e (trace s) = Inr z"
  shows "(\<forall>t r cs. template p = Some t \<longrightarrow> t \<noteq> [] \<longrightarrow> root_disk_size p = Some r \<longrightarrow> r \<noteq> 0 \<longrightarrow>
            self_template s = None \<longrightarrow> listTemplates e (trace s) = Inr cs \<longrightarrow>
            get_template_or_iso e p s =
              (case find (\<lambda>c. template_matches t c \<and> tmpl_size c \<le> r * 2 ^ 30) cs of
                 Some c \<Rightarrow> (Inr (Some (Template c)), s\<lparr>self_template := Some c\<rparr>)
               | None \<Rightarrow>
                   (Inl (Fail (''Template '' @ quoted t @ '' not found (with size <= ''
                               @ str_int r @ '')'')), s)))
       \<and> (\<forall>i cs. \<not> truthy_str (template p) \<longrightarrow> iso p = Some i \<longrightarrow> i \<noteq> [] \<longrightarrow>
            self_iso s = None \<longrightarrow> listIsos e (trace s) = Inr cs \<longrightarrow>
            get_template_or_iso e p s =
              (case find (iso_matches i) cs of
                 Some c \<Rightarrow> (Inr (Some (Iso c)), s\<lparr>self_iso := Some c\<rparr>)
               | None \<Rightarrow> (Inl (Fail (''ISO '' @ quoted i @ '' not found'')), s)))"
proof (intro conjI allI impI)
  fix t r cs
  assume h: "template p = Some t" "t \<noteq> []" "root_disk_size p = Some r" "r \<noteq> 0"
    "self_template s = None" "listTemplates e (trace s) = Inr cs"
  have f: "(\<lambda>c. template_matches t c \<and> \<not> template_too_big (Some r) c)
             = (\<lambda>c. template_matches t c \<and> tmpl_size c \<le> r * 2 ^ 30)"
    using h(4) by (auto simp: template_too_big_def truthy_int_def fun_eq_iff)
  show "get_template_or_iso e p s =
          (case find (\<lambda>c. template_matches t c \<and> tmpl_size c \<le> r * 2 ^ 30) cs of
             Some c \<Rightarrow> (Inr (Some (Template c)), s\<lparr>self_template := Some c\<rparr>)
           | None \<Rightarrow>
               (Inl (Fail (''Template '' @ quoted t @ '' not found (with size <= ''
                           @ str_int r @ '')'')), s))"
    using h scope_zone_args_ok [OF assms]
    by (simp add: get_template_or_iso_def truthy_str_def bindm_apply ask_def raise_def
        scan_templates_eq f template_not_found_def truthy_int_def
        split: option.splits)
next
  fix i cs
  assume h: "\<not> truthy_str (template p)" "iso p = Some i" "i \<noteq> []"
    "self_iso s = None" "listIsos e (trace s) = Inr cs"
  show "get_template_or_iso e p s =
          (case find (iso_matches i) cs of
             Some c \<Rightarrow> (Inr (Some (Iso c)), s\<lparr>self_iso := Some c\<rparr>)
           | None \<Rightarrow> (Inl (Fail (''ISO '' @ quoted i @ '' not found'')), s))"
    using h scope_zone_args_ok [OF assms]
    by (simp add: get_template_or_iso_def truthy_str_def bindm_apply ask_def raise_def
        split: option.splits)
qed

theorem template_size_constraint_witness:
  "get_template_or_iso demo_ext (demo_params\<lparr>template := Some ''debian'', root_disk_size := Some 2\<rparr>)
      (demo_st demo_vm)
     = (Inr (Some (Template demo_small_template)),
        (demo_st demo_vm)\<lparr>self_template := Some demo_small_template\<rparr>)
   \<and> get_template_or_iso demo_ext (demo_params\<lparr>template := Some ''debian'', root_disk_size := Some 1\<rparr>)
      (demo_st demo_vm)
     = (Inl (Fail (''Template '' @ quoted ''debian'' @ '' not found (with size <= 1)'')),
        demo_st demo_vm)
   \<and> get_template_or_iso demo_ext (demo_params\<lparr>iso := Some ''installer'', root_disk_size := Some 2\<rparr>)
      (demo_st demo_vm)
     = (Inr (Some (Iso demo_iso)), (demo_st demo_vm)\<lparr>self_iso := Some demo_iso\<rparr>)
   \<and> get_template_or_iso demo_ext (demo_params\<lparr>iso := Some ''rescue'', root_disk_size := Some 2\<rparr>)
      (demo_st demo_vm)
     = (Inl (Fail (''ISO '' @ quoted ''rescue'' @ '' not found'')), demo_st demo_vm)"
proof -
  have l: "listTemplates demo_ext (trace (demo_st demo_vm))
             = Inr [demo_big_template, demo_small_template]"
    "listIsos demo_ext (trace (demo_st demo_vm)) = Inr [demo_iso]"
    by (simp_all add: demo_ext_def)
  have n: "self_template (demo_st demo_vm) = None" "self_iso (demo_st demo_vm) = None"
    by (simp_all add: demo_st_def)
  note t = template_size_constraint [OF demo_scope(2,1,3,4)]
  show ?thesis
    using t [where s = "demo_st demo_vm"
               and p = "demo_params\<lparr>template := Some ''debian'', root_disk_size := Some 2\<rparr>"]
      t [where s = "demo_st demo_vm"
           and p = "demo_params\<lparr>template := Some ''debian'', root_disk_size := Some 1\<rparr>"]
      t [where s = "demo_st demo_vm"
           and p = "demo_params\<lparr>iso := Some ''installer'', root_disk_size := Some 2\<rparr>"]
      t [where s = "demo_st demo_vm"
           and p = "demo_params\<lparr>iso := Some ''rescue'', root_disk_size := Some 2\<rparr>"]
      l n
    by (simp add: template_matches_def demo_big_template_def demo_small_template_def str_int_def
        digits.simps iso_matches_def demo_iso_def demo_params_def truthy_str_def)
qed

text \<open>
  Claim C6 as worded fails for ISOs: an ISO of 3 GiB is resolved under a constraint of
  1 GiB.
\<close>

theorem iso_ignores_size_counterexample:
  "get_template_or_iso demo_ext (demo_params\<lparr>iso := Some ''installer'', root_disk_size := Some 1\<rparr>)
      (demo_st demo_vm)
     = (Inr (Some (Iso demo_iso)), (demo_st demo_vm)\<lparr>self_iso := Some demo_iso\<rparr>)
   \<and> iso_size demo_iso > 1 * 1024 ^ 3"
  by (simp add: get_template_or_iso_def demo_params_def truthy_str_def bindm_apply
      scope_zone_args_def scope_args_def ask_def ret_def demo_ext_def demo_st_def
      iso_matches_def demo_iso_def)

subsection \<open>Expunge\<close>

lemma get_instance_keeps:
  assumes "get_instance e p refresh s = (r, s1)"
  shows "trace s1 = trace s" "result_changed s1 = result_changed s" "warnings s1 = warnings s"
proof -
  from get_instance_frame [OF assms] have "s1 = s\<lparr>self_instance := self_instance s1\<rparr>" .
  then obtain c where c: "s1 = s\<lparr>self_instance := c\<rparr>" ..
  show "trace s1 = trace s" "result_changed s1 = result_changed s" "warnings s1 = warnings s"
    by (simp_all add: c)
qed

lemma issued_def2: "trace s1 = trace s \<Longrightarrow> issued s s' = issued s1 s'"
  by (simp add: issued_def)

lemma expunge_branch:
  "(if a = ''destroying'' \<or> a = ''destroyed'' then X else if a \<noteq> ''expunging'' then X else Y)
     = (if a \<noteq> ''expunging'' then X else Y)"
  by auto

lemma expunge_instance_run:
  assumes "get_instance e p False s = (Inr inst, s1)"
  shows "expunge_instance e p s =
           (case inst of
              Some (VM v) \<Rightarrow>
                bindm (if lower (state v) \<noteq> ''expunging'' then destroy_with_expunge e p inst
                       else ret Empty) (\<lambda>res.
                bindm (if poll_async p then poll e (Some res) ''virtualmachine'' else ret (Some res))
                  (\<lambda>_. ret inst)) s1
            | Some Empty \<Rightarrow> (Inr inst, s1)
            | None \<Rightarrow> (Inr inst, s1)
            | Some _ \<Rightarrow> (Inl (KeyError ''state''), s1))"
  using assms
  by (simp add: expunge_instance_def bindm_apply truthy_reply_def lift_def sub_state_def
      item_state_def ret_def expunge_branch split: option.split reply.split)

text \<open>
  Claim C7, amended.  Under target state expunged and outside check mode, a live instance
  in any state other than expunging (destroyed and destroying included) gets exactly one
  \<open>destroyVirtualMachine\<close> command with \<open>expunge=True\<close>, nothing before it (no recover), and
  the changed flag is set.  In check mode the flag is set and nothing is sent.  When the
  state is expunging, or there is no instance, nothing is sent and the flag is untouched.
\<close>

theorem expunge_outside_check_mode:
  assumes "get_instance e p False s = (Inr inst, s1)" "expunge_instance e p s = (r, s')"
  shows "(\<forall>v. inst = Some (VM v) \<longrightarrow> lower (state v) \<noteq> ''expunging'' \<longrightarrow> \<not> check_mode p \<longrightarrow>
            issued s s' = [DestroyVirtualMachine (vm_id v) True] \<and> result_changed s')
       \<and> (\<forall>v. inst = Some (VM v) \<longrightarrow> lower (state v) \<noteq> ''expunging'' \<longrightarrow> check_mode p \<longrightarrow>
            issued s s' = [] \<and> result_changed s')
       \<and> (\<forall>v. inst = Some (VM v) \<longrightarrow> lower (state v) = ''expunging'' \<longrightarrow>
            issued s s' = [] \<and> result_changed s' = result_changed s)
       \<and> (inst = None \<longrightarrow>
            issued s s' = [] \<and> result_changed s' = result_changed s \<and> r = Inr None)"
proof -
  note k = get_instance_keeps [OF assms(1)]
  have s': "s' = snd (expunge_instance e p s)" "r = fst (expunge_instance e p s)"
    using assms(2) by simp_all
  show ?thesis
    unfolding s' expunge_instance_run [OF assms(1)]
    by (simp add: k destroy_with_expunge_def bindm_apply lift_def sub_id_def item_id_def
          set_changed_def query_api_def poll_def ret_def issued_def mutating_def
        split: sum.split)
qed

lemma demo_cached:
  "get_instance demo_ext p False (demo_st v) = (Inr (Some (VM v)), demo_st v)"
  using get_instance_cached [of "demo_st v" demo_ext p]
  by (simp add: demo_st_def truthy_reply_def)

theorem expunge_outside_check_mode_witness:
  "issued (demo_st (demo_vm\<lparr>state := ''Destroyed''\<rparr>))
      (snd (expunge_instance demo_ext demo_params (demo_st (demo_vm\<lparr>state := ''Destroyed''\<rparr>))))
     = [DestroyVirtualMachine ''vm-1'' True]
   \<and> result_changed
        (snd (expunge_instance demo_ext demo_params (demo_st (demo_vm\<lparr>state := ''Destroyed''\<rparr>))))
   \<and> issued (demo_st (demo_vm\<lparr>state := ''Expunging''\<rparr>))
      (snd (expunge_instance demo_ext demo_params (demo_st (demo_vm\<lparr>state := ''Expunging''\<rparr>))))
     = []"
  using expunge_outside_check_mode
          [OF demo_cached [of demo_params "demo_vm\<lparr>state := ''Destroyed''\<rparr>"] surjective_pairing]
    expunge_outside_check_mode
          [OF demo_cached [of demo_params "demo_vm\<lparr>state := ''Expunging''\<rparr>"] surjective_pairing]
  by (simp add: demo_vm_def demo_params_def lower_def lower_char_def)

text \<open>
  Claim C7 as worded fails in check mode: a destroyed instance under target expunged gets
  no command at all, and the changed flag is set.
\<close>

theorem expunge_check_mode_counterexample:
  "issued (demo_st (demo_vm\<lparr>state := ''Destroyed''\<rparr>))
      (snd (expunge_instance demo_ext (demo_params\<lparr>check_mode := True\<rparr>)
              (demo_st (demo_vm\<lparr>state := ''Destroyed''\<rparr>))))
     = []
   \<and> result_changed
        (snd (expunge_instance demo_ext (demo_params\<lparr>check_mode := True\<rparr>)
                (demo_st (demo_vm\<lparr>state := ''Destroyed''\<rparr>))))"
  unfolding expunge_instance_run [OF demo_cached]
  by (simp add: destroy_with_expunge_def bindm_apply
      set_changed_def ret_def poll_def demo_params_def demo_ext_def demo_poll_job_def
      demo_vm_def lower_def lower_char_def issued_def mutating_def demo_st_def)

subsection \<open>Sending steps in sequence\<close>

lemma steps_append [simp]: "steps (xs @ ys) = steps xs @ steps ys"
  by (simp add: steps_def)

lemma steps_Nil [simp]: "steps [] = []"
  by (simp add: steps_def)

lemma steps_poll [simp]: "steps (PollJob x k # cs) = steps cs"
  by (simp add: steps_def mutating_def)

lemma sends_bindm:
  assumes "sends f s L1 G" and "\<And>x s1. f s = (Inr x, s1) \<Longrightarrow> sends (g x) s1 L2 G"
  shows "sends (bindm f g) s (L1 @ L2) G"
proof (cases "f s")
  case (Pair r s1)
  from assms(1) Pair obtain cs where cs: "trace s1 = trace s @ cs" "prefix (steps cs) L1"
    "\<not> isl r \<longrightarrow> steps cs = L1" "list_all G cs"
    by (auto simp: sends_def)
  show ?thesis
  proof (cases r)
    case (Inl err)
    with Pair cs show ?thesis
      by (auto simp: sends_def bindm_apply intro!: exI [of _ cs])
  next
    case (Inr x)
    with Pair have "sends (g x) s1 L2 G" by (intro assms(2)) simp
    then obtain cs2 where cs2: "trace (snd (g x s1)) = trace s1 @ cs2" "prefix (steps cs2) L2"
      "\<not> isl (fst (g x s1)) \<longrightarrow> steps cs2 = L2" "list_all G cs2"
      by (auto simp: sends_def)
    with Pair Inr cs show ?thesis
      by (auto simp: sends_def bindm_apply intro!: exI [of _ "cs @ cs2"])
  qed
qed

subsection \<open>Methods that only read\<close>

lemma reads_ret [simp, intro!]: "reads (ret x)"
  by (simp add: reads_def ret_def)

lemma reads_raise [simp, intro!]: "reads (raise err)"
  by (simp add: reads_def raise_def)

lemma reads_lift [simp, intro!]: "reads (lift r)"
  by (simp add: reads_def lift_def)

lemma reads_ask [simp, intro!]: "reads (ask f)"
  by (simp add: reads_def ask_def)

lemma reads_get_self_instance [simp, intro!]: "reads get_self_instance"
  by (simp add: reads_def get_self_instance_def)

lemma reads_bindm [intro!]: "reads f \<Longrightarrow> (\<And>x. reads (g x)) \<Longrightarrow> reads (bindm f g)"
  by (auto simp: reads_def bindm_apply split: prod.splits sum.splits)
    (metis snd_conv)+

lemma reads_case_prod [intro!]: "(\<And>a b. reads (f a b)) \<Longrightarrow> reads (case_prod f x)"
  by (cases x) simp

lemma reads_D: "reads f \<Longrightarrow> f s = (r, s') \<Longrightarrow> s' = s"
  by (auto simp: reads_def dest: spec [of _ s])

lemma reads_scope_args [simp, intro!]: "reads (scope_args e)"
  unfolding scope_args_def by (intro reads_bindm reads_ask reads_ret)

lemma reads_get_service_offering_id [simp, intro!]: "reads (get_service_offering_id e p)"
  unfolding get_service_offering_id_def Let_def
  by (intro reads_bindm reads_ask) (simp split: option.split list.split)

lemma reads_lookup_in_zone [simp, intro!]: "reads (lookup_in_zone e k l w)"
  unfolding lookup_in_zone_def
  by (auto split: option.split)

lemma reads_get_host_id [simp, intro!]: "reads (get_host_id e p)"
  by (simp add: get_host_id_def)

lemma reads_get_user_data_id_by_name [simp, intro!]: "reads (get_user_data_id_by_name e p)"
  unfolding get_user_data_id_by_name_def
  by (auto split: option.split)

lemma reads_get_instance_user_data [simp, intro!]: "reads (get_instance_user_data e p inst)"
  unfolding get_instance_user_data_def
  by (auto split: option.split reply.split)

lemma reads_get_ssh_keypair [simp, intro!]: "reads (get_ssh_keypair e k f)"
  unfolding get_ssh_keypair_def
  by (auto split: option.split)

lemma reads_mapm [intro!]: "(\<And>x. reads (f x)) \<Longrightarrow> reads (mapm f xs)"
  by (induction xs) auto

lemma reads_ssh_keys_loop [simp, intro!]: "reads (ssh_keys_loop e w fps live)"
  by (induction live) auto

lemma reads_ssh_keys_changed [simp, intro!]: "reads (ssh_keys_changed e p)"
  unfolding ssh_keys_changed_def
  by (auto split: option.split)

lemma reads_security_groups_changed [simp, intro!]: "reads (security_groups_changed e p)"
  unfolding security_groups_changed_def
  by (auto split: option.split)

lemma reads_detect_root_disk_size [simp, intro!]: "reads (detect_root_disk_size e p inst)"
  unfolding detect_root_disk_size_def Let_def
  by (auto split: option.split list.split)

lemma reads_detect_service_offering [simp, intro!]: "reads (detect_service_offering e p inst)"
  unfolding detect_service_offering_def Let_def
  by auto

lemma reads_detect_instance [simp, intro!]: "reads (detect_instance e p inst)"
  unfolding detect_instance_def Let_def
  by auto

lemma reads_detect_changes [simp, intro!]: "reads (detect_changes e p inst)"
  unfolding detect_changes_def
  by (intro reads_bindm reads_case_prod reads_ret reads_detect_service_offering
      reads_detect_instance reads_ssh_keys_changed reads_security_groups_changed
      reads_detect_root_disk_size)

subsection \<open>The steps of the update cycle\<close>

lemma sends_ret [simp]: "sends (ret x) s [] G"
  by (simp add: sends_def ret_def)

lemma sends_change_service_offering:
  "sends (change_service_offering e d i) s
     (if service_offering_axis d then [OfferingStep] else []) (expected_call p d)"
  by (simp add: change_service_offering_def bindm_apply lift_def set_self_instance_def ret_def
      query_api_def sends_def steps_def mutating_def step_of_def expected_call_def
      split: sum.split)

lemma sends_update_vm:
  "sends (update_vm e p d i) s
     (if instance_axis d \<or> security_groups_axis d then [UpdateStep] else [])
     (expected_call p d)"
  by (simp add: update_vm_def bindm_apply lift_def set_self_instance_def ret_def raise_def
      query_api_def sends_def steps_def mutating_def step_of_def expected_call_def
      split: sum.split option.split)

lemma sends_reset_ssh_key:
  "sends (reset_ssh_key e p d i) s (if ssh_keys_axis d then [SshKeyStep] else [])
     (expected_call p d)"
  by (simp add: reset_ssh_key_def bindm_apply lift_def set_self_instance_def ret_def ask_def
      query_api_def poll_def sends_def steps_def mutating_def step_of_def expected_call_def
      split: sum.split)

lemma sends_resize_root_disk:
  "sends (resize_root_disk e d) s (if root_disk_size_axis d then [ResizeStep] else [])
     (expected_call p d)"
  by (simp add: resize_root_disk_def bindm_apply ret_def
      query_api_def poll_def sends_def steps_def mutating_def step_of_def expected_call_def
      split: sum.split)

lemma sends_changes:
  "sends (bindm (change_service_offering e d i) (\<lambda>i.
          bindm (update_vm e p d i) (\<lambda>i.
          bindm (reset_ssh_key e p d i) (\<lambda>i.
          bindm (resize_root_disk e d) (\<lambda>_. ret i))))) s
     (planned_steps d) (expected_call p d)"
proof -
  have "sends (bindm (change_service_offering e d i) (\<lambda>i.
          bindm (update_vm e p d i) (\<lambda>i.
          bindm (reset_ssh_key e p d i) (\<lambda>i.
          bindm (resize_root_disk e d) (\<lambda>_. ret i))))) s
     ((if service_offering_axis d then [OfferingStep] else [])
      @ (if instance_axis d \<or> security_groups_axis d then [UpdateStep] else [])
      @ (if ssh_keys_axis d then [SshKeyStep] else [])
      @ (if root_disk_size_axis d then [ResizeStep] else []) @ []) (expected_call p d)"
    by (intro sends_bindm sends_change_service_offering sends_update_vm sends_reset_ssh_key
        sends_resize_root_disk sends_ret)
  then show ?thesis by (simp add: planned_steps_def)
qed

subsection \<open>The changed flag is never cleared\<close>

lemma keeps_reads [intro]: "reads f \<Longrightarrow> keeps_changed f"
  by (simp add: keeps_changed_def reads_def)

lemma keeps_bindm [intro!]:
  "keeps_changed f \<Longrightarrow> (\<And>x. keeps_changed (g x)) \<Longrightarrow> keeps_changed (bindm f g)"
  unfolding keeps_changed_def bindm_apply
  by (auto split: prod.splits sum.splits)

lemma keeps_primitives [simp, intro!]:
  "keeps_changed (ret x)" "keeps_changed (raise err)" "keeps_changed (lift r)"
  "keeps_changed (ask f)" "keeps_changed get_self_instance"
  "keeps_changed (set_self_instance i)" "keeps_changed set_changed"
  "keeps_changed (warn msg)" "keeps_changed (query_api e c)" "keeps_changed (poll e j k)"
  by (simp_all add: keeps_changed_def ret_def raise_def lift_def ask_def get_self_instance_def
      set_self_instance_def set_changed_def warn_def query_api_def poll_def)

lemma keeps_get_instance [simp, intro!]: "keeps_changed (get_instance e p refresh)"
  unfolding keeps_changed_def
  using get_instance_keeps(2) [of e p refresh]
  by (metis prod.collapse)

lemma keeps_get_host_id [simp, intro!]: "keeps_changed (get_host_id e p)"
  by (rule keeps_reads) simp

lemma keeps_stop_instance [simp, intro!]: "keeps_changed (stop_instance e p)"
  unfolding stop_instance_def
  by (intro keeps_bindm keeps_get_instance) auto

lemma keeps_start_instance [simp, intro!]: "keeps_changed (start_instance e p)"
  unfolding start_instance_def
  by (intro keeps_bindm keeps_get_instance) auto

lemma keeps_migrate [simp, intro!]: "keeps_changed (migrate e p i)"
  unfolding migrate_def
  by (intro keeps_bindm keeps_primitives) auto

lemma keeps_D: "keeps_changed f \<Longrightarrow> result_changed s \<Longrightarrow> f s = (r, s') \<Longrightarrow> result_changed s'"
  by (auto simp: keeps_changed_def dest: spec [of _ s])

subsection \<open>Restart and migration\<close>

lemma reads_apply: "reads f \<Longrightarrow> (case f s of (r, s') \<Rightarrow> P r s') = P (fst (f s)) s"
  by (cases "f s") (auto simp: reads_def dest: spec [of _ s])

lemma parked_truthy: "parked r \<Longrightarrow> truthy_reply r"
  by (auto simp: parked_def truthy_reply_def split: option.splits reply.splits)

lemma start_instance_run:
  assumes "\<not> check_mode p" "start_instance e p s = (r, s1)"
  shows "\<exists>cs. trace s1 = trace s @ cs \<and> (steps cs = [] \<or> steps cs = [StartStep])
            \<and> list_all (expected_call p d) cs
            \<and> (\<not> isl r \<and> parked (self_instance s) \<longrightarrow> steps cs = [StartStep])"
proof (cases "get_instance e p False s")
  case (Pair r0 s0)
  note k = get_instance_keeps(1) [OF Pair]
  have g: "parked (self_instance s) \<longrightarrow> r0 = Inr (self_instance s) \<and> s0 = s"
    using get_instance_cached [OF parked_truthy, of s e p] Pair by auto
  show ?thesis
  proof (cases r0)
    case (Inl err)
    with Pair assms(2) k g show ?thesis
      by (auto simp: start_instance_def bindm_apply)
  next
    case (Inr x)
    have r: "reads (get_host_id e p)" by simp
    show ?thesis
      using assms Pair Inr k g
      by (auto simp: start_instance_def bindm_apply reads_apply [OF r] lift_def sub_state_def
            item_state_def sub_id_def item_id_def set_changed_def ret_def query_api_def poll_def
            steps_def mutating_def step_of_def expected_call_def truthy_reply_def parked_def
          split: if_splits sum.splits option.splits reply.splits)
  qed
qed

lemma migrate_run:
  assumes "migrate e p i s = (r, s1)"
  shows "\<exists>cs. trace s1 = trace s @ cs \<and> (steps cs = [] \<or> steps cs = [MigrateStep])
            \<and> list_all (expected_call p d) cs
            \<and> (\<forall>c\<in>set cs. step_of c = MigrateStep \<or> \<not> mutating c)
            \<and> self_instance s1 = self_instance s \<and> warnings s1 = warnings s
            \<and> (result_changed s1 \<longleftrightarrow> result_changed s \<or> host_changed p i = Inr True)"
proof -
  have r: "reads (get_host_id e p)" by simp
  show ?thesis
    using assms
    by (auto simp: migrate_def bindm_apply reads_apply [OF r] lift_def set_changed_def ret_def
          query_api_def poll_def steps_def mutating_def step_of_def expected_call_def
        split: if_splits sum.splits)
qed

lemma restart_and_migrate_run:
  assumes "\<not> check_mode p"
    and "bindm (start_again e p st0 sv i) (migrate e p) s = (r, s')"
  shows "\<exists>cs restart moving.
           trace s' = trace s @ cs \<and> prefix (steps cs) (restart @ moving)
         \<and> (\<not> isl r \<longrightarrow> steps cs = restart @ moving)
         \<and> (restart = [] \<or> restart = [StartStep] \<and> st0 = ''running'' \<and> sv)
         \<and> (\<not> isl r \<and> st0 = ''running'' \<and> sv \<and> parked (self_instance s)
              \<longrightarrow> restart = [StartStep])
         \<and> (moving = [] \<or> moving = [MigrateStep])
         \<and> list_all (expected_call p d) cs"
proof (cases "start_again e p st0 sv i s")
  case (Pair r1 s1)
  have "\<exists>cs. trace s1 = trace s @ cs
            \<and> (steps cs = [] \<or> steps cs = [StartStep] \<and> st0 = ''running'' \<and> sv)
            \<and> list_all (expected_call p d) cs
            \<and> (\<not> isl r1 \<and> st0 = ''running'' \<and> sv \<and> parked (self_instance s)
                 \<longrightarrow> steps cs = [StartStep])"
  proof (cases "st0 = ''running'' \<and> sv")
    case True
    with Pair have "start_instance e p s = (r1, s1)" by (simp add: start_again_def)
    from start_instance_run [OF assms(1) this, of d] True show ?thesis by blast
  next
    case False
    with Pair have "s1 = s" by (auto simp: start_again_def ret_def)
    with False show ?thesis by auto
  qed
  then obtain cs1 where cs1: "trace s1 = trace s @ cs1"
    "steps cs1 = [] \<or> steps cs1 = [StartStep] \<and> st0 = ''running'' \<and> sv"
    "list_all (expected_call p d) cs1"
    "\<not> isl r1 \<and> st0 = ''running'' \<and> sv \<and> parked (self_instance s)
       \<longrightarrow> steps cs1 = [StartStep]"
    by blast
  show ?thesis
  proof (cases r1)
    case (Inl err)
    with Pair assms(2) have "r = Inl err" "s' = s1" by (simp_all add: bindm_apply)
    with cs1 show ?thesis
      by (intro exI [of _ cs1] exI [of _ "steps cs1"] exI [of _ "[]"]) auto
  next
    case (Inr x)
    with Pair assms(2) have m: "migrate e p x s1 = (r, s')" by (simp add: bindm_apply)
    from migrate_run [OF m, of d] obtain cs2 where cs2: "trace s' = trace s1 @ cs2"
      "steps cs2 = [] \<or> steps cs2 = [MigrateStep]" "list_all (expected_call p d) cs2"
      "self_instance s' = self_instance s1"
      by blast
    from cs1 cs2 Inr show ?thesis
      by (intro exI [of _ "cs1 @ cs2"] exI [of _ "steps cs1"] exI [of _ "steps cs2"]) auto
  qed
qed

subsection \<open>What the change detector leaves of the instance\<close>

lemma detect_instance_seen:
  assumes "detect_instance e p (VM v) s = (Inr (a, b, i'), s1)"
  shows "\<exists>u. i' = VM (v\<lparr>userdata := u\<rparr>)"
proof -
  have v: "VM v = VM (v\<lparr>userdata := userdata v\<rparr>)" by simp
  show ?thesis
    using assms
    apply (simp add: detect_instance_def bindm_apply lift_def item_id_def ask_def ret_def Let_def
        set_userdata_def split: if_splits sum.splits prod.splits)
     apply (auto intro: exI [of _ "userdata v"])
    done
qed

lemma detect_changes_seen:
  assumes "detect_changes e p (VM v) s = (Inr d, s0)"
  shows "s0 = s \<and> (\<exists>u. seen_instance d = VM (v\<lparr>userdata := u\<rparr>))"
proof -
  have s0: "s0 = s" using reads_D [OF reads_detect_changes assms] .
  obtain r1 where r1: "detect_instance e p (VM v) s = (r1, s)"
    using reads_D [OF reads_detect_instance] by (cases "detect_instance e p (VM v) s") auto
  have "\<exists>u. seen_instance d = VM (v\<lparr>userdata := u\<rparr>)"
    using assms r1 detect_instance_seen [of e p v s]
    by (auto simp: detect_changes_def bindm_apply ret_def
          reads_apply [OF reads_detect_service_offering]
          reads_apply [OF reads_ssh_keys_changed]
          reads_apply [OF reads_security_groups_changed]
          reads_apply [OF reads_detect_root_disk_size]
        split: sum.splits prod.splits)
  with s0 show ?thesis by simp
qed

lemma bindm_assoc: "bindm (bindm f g) h = bindm f (\<lambda>x. bindm (g x) h)"
  by (auto simp: bindm_def fun_eq_iff split: prod.splits sum.splits)

lemma lift_Inr [simp]: "lift (Inr x) = ret x"
  by (simp add: lift_def ret_def)

lemma bindm_set_changed: "bindm set_changed g s = g () (s\<lparr>result_changed := True\<rparr>)"
  by (simp add: bindm_apply set_changed_def)

lemma update_instance_applied:
  assumes "detect_changes e p (VM v) s = (Inr d, s0)" "any_changed d"
    "lower (state v) = ''stopped'' \<or> force p" "\<not> check_mode p"
  shows "update_instance e p (VM v) sv s =
           bindm (ensure_stopped e p) (\<lambda>i.
             bindm (bindm (change_service_offering e d i) (\<lambda>i.
                    bindm (update_vm e p d i) (\<lambda>i.
                    bindm (reset_ssh_key e p d i) (\<lambda>i.
                    bindm (resize_root_disk e d) (\<lambda>_. ret i))))) (\<lambda>i.
             bindm (start_again e p (lower (state v)) sv i) (migrate e p)))
           (s\<lparr>result_changed := True\<rparr>)"
proof -
  from detect_changes_seen [OF assms(1)] obtain u
    where s0: "s0 = s" and seen: "seen_instance d = VM (v\<lparr>userdata := u\<rparr>)" by blast
  have st: "item_state (seen_instance d) = Inr (state v)"
    by (simp add: seen item_state_def)
  have "update_instance e p (VM v) sv s = bindm (apply_or_warn e p d sv) (migrate e p) s"
    using assms(1) s0 by (simp add: update_instance_def bindm_apply)
  also have "apply_or_warn e p d sv
               = bindm set_changed (\<lambda>_. apply_changes e p d (lower (state v)) sv)"
    using assms(2-4) by (auto simp: apply_or_warn_def st Let_def)
  also have "bindm (bindm set_changed (\<lambda>_. apply_changes e p d (lower (state v)) sv))
               (migrate e p) s
             = bindm (apply_changes e p d (lower (state v)) sv) (migrate e p)
                 (s\<lparr>result_changed := True\<rparr>)"
    by (simp add: bindm_assoc bindm_set_changed)
  also have "bindm (apply_changes e p d (lower (state v)) sv) (migrate e p)
             = bindm (ensure_stopped e p) (\<lambda>i.
                 bindm (bindm (change_service_offering e d i) (\<lambda>i.
                        bindm (update_vm e p d i) (\<lambda>i.
                        bindm (reset_ssh_key e p d i) (\<lambda>i.
                        bindm (resize_root_disk e d) (\<lambda>_. ret i))))) (\<lambda>i.
                 bindm (start_again e p (lower (state v)) sv i) (migrate e p)))"
    by (simp add: apply_changes_def bindm_assoc)
  finally show ?thesis .
qed

subsection \<open>The instance stays stopped until the restart\<close>

lemma settles_job:
  "settles_stopped e c t0 \<Longrightarrow> unstarted cs \<Longrightarrow> down c (cs @ [x])
     \<Longrightarrow> step_of x \<in> {StopStep, SshKeyStep} \<Longrightarrow> api e (t0 @ cs) x = Inr (Job j)
     \<Longrightarrow> poll_job e (t0 @ cs @ [x]) (Some (Job j)) ''virtualmachine'' = Inr r
     \<Longrightarrow> parked r"
  unfolding settles_stopped_def by blast

lemma settles_envelope:
  "settles_stopped e c t0 \<Longrightarrow> unstarted cs \<Longrightarrow> down c cs
     \<Longrightarrow> step_of x \<in> {OfferingStep, UpdateStep} \<Longrightarrow> api e (t0 @ cs) x = Inr (Envelope v)
     \<Longrightarrow> parked (Some (VM v))"
  unfolding settles_stopped_def by blast

lemma settles_handle:
  "settles_stopped e c t0 \<Longrightarrow> step_of x \<in> {StopStep, SshKeyStep} \<Longrightarrow> api e h x = Inr r
     \<Longrightarrow> \<exists>j. r = Job j"
  unfolding settles_stopped_def by blast

lemma settles_resource:
  "settles_stopped e c t0 \<Longrightarrow> poll_job e h (Some (VM w)) k = Inr r \<Longrightarrow> r = Some (VM w)"
  unfolding settles_stopped_def by blast

lemma unstarted_append [simp]: "unstarted (h @ cs) \<longleftrightarrow> unstarted h \<and> unstarted cs"
  by (simp add: unstarted_def)

lemma unstarted_Nil [simp]: "unstarted []"
  by (simp add: unstarted_def)

lemma unstarted_Cons [simp]: "unstarted (c # cs) \<longleftrightarrow> step_of c \<noteq> StartStep \<and> unstarted cs"
  by (simp add: unstarted_def)

lemma down_append: "down c cs \<Longrightarrow> down c (cs @ ys)"
  by (auto simp: down_def)

lemma down_stop: "step_of x = StopStep \<Longrightarrow> down c (cs @ x # ys)"
  by (auto simp: down_def)

lemma heldI:
  "trace s = t0 @ cs \<Longrightarrow> unstarted cs \<Longrightarrow> down c cs \<Longrightarrow> parked (self_instance s) \<Longrightarrow> held c t0 s"
  by (simp add: held_def)

lemma heldE:
  assumes "held c t0 s"
  obtains cs where "trace s = t0 @ cs" "unstarted cs" "down c cs" "parked (self_instance s)"
proof -
  have "trace s = t0 @ drop (length t0) (trace s)"
    using assms append_take_drop_id [of "length t0" "trace s"] by (simp add: held_def)
  with assms that show ?thesis by (simp add: held_def)
qed

lemma ensure_stopped_parks:
  assumes "settles_stopped e c (trace s)" "self_instance s = Some (VM c)"
    and "lower (state c) \<in> {''starting'', ''running'', ''stopping'', ''stopped''}"
    and "\<not> check_mode p"
    and "ensure_stopped e p s = (Inr i, s1)"
  shows "held c (trace s) s1"
proof (cases "lower (state c) \<in> {''stopping'', ''stopped''}")
  case True
  then have stop: "stop_instance e p s = (Inr (Some (VM c)), s)"
    using assms(2)
    by (simp add: stop_instance_def get_instance_cached truthy_reply_def bindm_apply lift_def
        sub_state_def item_state_def ret_def)
  have c: "parked (Some (VM c))" using True by (auto simp: parked_def)
  obtain r where r: "poll_job e (trace s) (Some (VM c)) ''virtualmachine'' = Inr r"
    and s1: "s1 = s\<lparr>trace := trace s @ [PollJob (Some (VM c)) ''virtualmachine''],
                     self_instance := r\<rparr>"
    using assms(5) stop
    by (auto simp: ensure_stopped_def bindm_apply poll_def set_self_instance_def ret_def
        split: sum.splits)
  show ?thesis
    by (rule heldI [of _ _ "[PollJob (Some (VM c)) ''virtualmachine'']"])
      (use settles_resource [OF assms(1) r] c s1 in \<open>simp_all add: step_of_def down_def\<close>)
next
  case False
  with assms(3) have running: "lower (state c) \<in> {''starting'', ''running''}" by auto
  let ?stop = "StopVirtualMachine (vm_id c)"
  let ?t1 = "trace s @ [?stop]"
  have stop: "stop_instance e p s =
                bindm (query_api e ?stop) (\<lambda>res.
                  if poll_async p then poll e (Some res) ''virtualmachine'' else ret (Some res))
                  (s\<lparr>result_changed := True\<rparr>)"
    using assms(2,4) False running
    by (simp add: stop_instance_def get_instance_cached truthy_reply_def bindm_apply lift_def
        sub_state_def item_state_def sub_id_def item_id_def set_changed_def)
  obtain res where res: "api e (trace s) ?stop = Inr res"
    using assms(5) stop
    by (auto simp: ensure_stopped_def bindm_apply query_api_def split: sum.splits)
  from settles_handle [OF assms(1) _ res] obtain j where j: "res = Job j"
    by (auto simp: step_of_def)
  have st: "step_of ?stop \<in> {StopStep, SshKeyStep}" "down c ([] @ [?stop])"
    by (simp_all add: step_of_def down_def)
  have job: "parked r1" if "poll_job e ?t1 (Some (Job j)) ''virtualmachine'' = Inr r1" for r1
    using settles_job [OF assms(1) unstarted_Nil st(2,1), of j r1] res j that by simp
  show ?thesis
  proof (cases "poll_async p")
    case True
    let ?t2 = "?t1 @ [PollJob (Some (Job j)) ''virtualmachine'']"
    obtain r1 where r1: "poll_job e ?t1 (Some (Job j)) ''virtualmachine'' = Inr r1"
      using assms(5) stop res j True
      by (auto simp: ensure_stopped_def bindm_apply query_api_def poll_def split: sum.splits)
    from job [OF r1] have p1: "parked r1" .
    then obtain w where w: "r1 = Some (VM w)"
      by (auto simp: parked_def split: option.splits reply.splits)
    obtain r2 where r2: "poll_job e ?t2 (Some (VM w)) ''virtualmachine'' = Inr r2"
      and s1: "s1 = s\<lparr>result_changed := True,
                      trace := ?t2 @ [PollJob (Some (VM w)) ''virtualmachine''],
                      self_instance := r2\<rparr>"
      using assms(5) stop res j True r1 w
      by (auto simp: ensure_stopped_def bindm_apply query_api_def poll_def set_self_instance_def
          ret_def split: sum.splits)
    show ?thesis
      by (rule heldI [of _ _ "[?stop, PollJob (Some (Job j)) ''virtualmachine'',
                               PollJob (Some (VM w)) ''virtualmachine'']"])
        (use settles_resource [OF assms(1) r2] p1 w s1 in \<open>simp_all add: step_of_def down_def\<close>)
  next
    case False
    obtain r1 where r1: "poll_job e ?t1 (Some (Job j)) ''virtualmachine'' = Inr r1"
      and s1: "s1 = s\<lparr>result_changed := True,
                      trace := ?t1 @ [PollJob (Some (Job j)) ''virtualmachine''],
                      self_instance := r1\<rparr>"
      using assms(5) stop res j False
      by (auto simp: ensure_stopped_def bindm_apply query_api_def poll_def set_self_instance_def
          ret_def split: sum.splits)
    show ?thesis
      by (rule heldI [of _ _ "[?stop, PollJob (Some (Job j)) ''virtualmachine'']"])
        (use job [OF r1] s1 in \<open>simp_all add: step_of_def down_def\<close>)
  qed
qed

lemma stays_parked_ret [simp, intro!]: "stays_parked c t0 (ret x)"
  by (simp add: stays_parked_def ret_def)

lemma stays_parked_bindm [intro]:
  assumes "stays_parked c t0 f" "\<And>x. stays_parked c t0 (g x)"
  shows "stays_parked c t0 (bindm f g)"
  unfolding stays_parked_def
proof (intro allI impI)
  fix s y s'
  assume h: "held c t0 s" "bindm f g s = (Inr y, s')"
  obtain r s1 where f: "f s = (r, s1)" by (cases "f s")
  with h(2) obtain x where x: "r = Inr x" "g x s1 = (Inr y, s')"
    by (cases r) (auto simp: bindm_apply)
  from assms(1) h(1) f x(1) have "held c t0 s1"
    unfolding stays_parked_def by blast
  with assms(2) [of x] x(2) show "held c t0 s'"
    unfolding stays_parked_def by blast
qed

lemma stays_parked_change_service_offering:
  assumes "settles_stopped e c t0"
  shows "stays_parked c t0 (change_service_offering e d i)"
  unfolding stays_parked_def
proof (intro allI impI)
  fix s x s'
  assume h: "held c t0 s" "change_service_offering e d i s = (Inr x, s')"
  from h(1) obtain cs where cs: "trace s = t0 @ cs" "unstarted cs" "down c cs"
    "parked (self_instance s)"
    by (rule heldE)
  show "held c t0 s'"
  proof (cases "service_offering_axis d")
    case False
    with h show ?thesis by (simp add: change_service_offering_def ret_def)
  next
    case True
    let ?c = "ChangeServiceForVirtualMachine (args_service_offering d)"
    from h(2) True obtain v where v: "api e (trace s) ?c = Inr (Envelope v)"
      and s': "s' = s\<lparr>trace := trace s @ [?c], self_instance := Some (VM v)\<rparr>"
      by (auto simp: change_service_offering_def bindm_apply query_api_def lift_def
          item_virtualmachine_def set_self_instance_def ret_def
          split: sum.splits reply.splits)
    have "parked (Some (VM v))"
      by (rule settles_envelope [OF assms cs(2,3) _ v [unfolded cs(1)]]) (simp add: step_of_def)
    then show ?thesis
      by (intro heldI [of _ _ "cs @ [?c]"])
        (use s' cs down_append [OF cs(3)] in \<open>simp_all add: step_of_def\<close>)
  qed
qed

lemma stays_parked_update_vm:
  assumes "settles_stopped e c t0"
  shows "stays_parked c t0 (update_vm e p d i)"
  unfolding stays_parked_def
proof (intro allI impI)
  fix s x s'
  assume h: "held c t0 s" "update_vm e p d i s = (Inr x, s')"
  from h(1) obtain cs where cs: "trace s = t0 @ cs" "unstarted cs" "down c cs"
    "parked (self_instance s)"
    by (rule heldE)
  show "held c t0 s'"
  proof (cases "instance_axis d \<or> security_groups_axis d")
    case False
    with h show ?thesis by (simp add: update_vm_def ret_def)
  next
    case True
    from h(2) True obtain a v where v: "api e (trace s) (UpdateVirtualMachine a) = Inr (Envelope v)"
      and s': "s' = s\<lparr>trace := trace s @ [UpdateVirtualMachine a], self_instance := Some (VM v)\<rparr>"
      by (auto simp: update_vm_def bindm_apply query_api_def lift_def
          item_virtualmachine_def set_self_instance_def ret_def raise_def
          split: sum.splits reply.splits option.splits if_splits)
    have "parked (Some (VM v))"
      by (rule settles_envelope [OF assms cs(2,3) _ v [unfolded cs(1)]]) (simp add: step_of_def)
    then show ?thesis
      by (intro heldI [of _ _ "cs @ [UpdateVirtualMachine a]"])
        (use s' cs down_append [OF cs(3)] in \<open>simp_all add: step_of_def\<close>)
  qed
qed

lemma stays_parked_reset_ssh_key:
  assumes "settles_stopped e c t0"
  shows "stays_parked c t0 (reset_ssh_key e p d i)"
  unfolding stays_parked_def
proof (intro allI impI)
  fix s x s'
  assume h: "held c t0 s" "reset_ssh_key e p d i s = (Inr x, s')"
  from h(1) obtain cs where cs: "trace s = t0 @ cs" "unstarted cs" "down c cs"
    "parked (self_instance s)"
    by (rule heldE)
  show "held c t0 s'"
  proof (cases "ssh_keys_axis d")
    case False
    with h show ?thesis by (simp add: reset_ssh_key_def ret_def)
  next
    case True
    from h(2) True obtain a res r
      where res: "api e (trace s) (ResetSSHKeyForVirtualMachine a) = Inr res"
        and r: "poll_job e (trace s @ [ResetSSHKeyForVirtualMachine a]) (Some res)
                  ''virtualmachine'' = Inr r"
        and s': "s' = s\<lparr>trace := trace s @ [ResetSSHKeyForVirtualMachine a]
                                   @ [PollJob (Some res) ''virtualmachine''],
                         self_instance := r\<rparr>"
      by (auto simp: reset_ssh_key_def bindm_apply query_api_def lift_def ask_def poll_def
          set_self_instance_def ret_def
          split: sum.splits)
    let ?x = "ResetSSHKeyForVirtualMachine a"
    from settles_handle [OF assms _ res] obtain j where j: "res = Job j"
      by (auto simp: step_of_def)
    have "parked r"
      by (rule settles_job [OF assms cs(2) down_append [OF cs(3)], of ?x j])
        (use res r j cs(1) in \<open>simp_all add: step_of_def\<close>)
    then show ?thesis
      by (intro heldI [of _ _ "cs @ [?x, PollJob (Some res) ''virtualmachine'']"])
        (use s' cs down_append [OF cs(3)] in \<open>simp_all add: step_of_def\<close>)
  qed
qed

lemma stays_parked_resize_root_disk: "stays_parked c t0 (resize_root_disk e d)"
  unfolding stays_parked_def
proof (intro allI impI)
  fix s x s'
  assume h: "held c t0 s" "resize_root_disk e d s = (Inr x, s')"
  from h(1) obtain cs where cs: "trace s = t0 @ cs" "unstarted cs" "down c cs"
    "parked (self_instance s)"
    by (rule heldE)
  show "held c t0 s'"
  proof (cases "root_disk_size_axis d")
    case False
    with h show ?thesis by (simp add: resize_root_disk_def ret_def)
  next
    case True
    let ?x = "ResizeVolume (args_volume_update d)"
    from h(2) True obtain res where s': "s' = s\<lparr>trace := trace s @ [?x]
                                   @ [PollJob (Some res) ''volume'']\<rparr>"
      by (auto simp: resize_root_disk_def bindm_apply query_api_def poll_def ret_def
          split: sum.splits)
    show ?thesis
      by (intro heldI [of _ _ "cs @ [?x, PollJob (Some res) ''volume'']"])
        (use s' cs down_append [OF cs(3)] in \<open>simp_all add: step_of_def\<close>)
  qed
qed

lemma stays_parked_changes:
  assumes "settles_stopped e c t0"
  shows "stays_parked c t0 (bindm (change_service_offering e d i) (\<lambda>i.
                            bindm (update_vm e p d i) (\<lambda>i.
                            bindm (reset_ssh_key e p d i) (\<lambda>i.
                            bindm (resize_root_disk e d) (\<lambda>_. ret i)))))"
  by (intro stays_parked_bindm stays_parked_change_service_offering [OF assms]
      stays_parked_update_vm [OF assms] stays_parked_reset_ssh_key [OF assms]
      stays_parked_resize_root_disk stays_parked_ret)

subsection \<open>The update cycle\<close>

lemma ensure_stopped_run:
  assumes "self_instance s = Some (VM c)" "\<not> check_mode p"
  shows "\<exists>cs. trace (snd (ensure_stopped e p s)) = trace s @ cs
            \<and> steps cs = (if lower (state c) \<in> {''starting'', ''running''} then [StopStep] else [])
            \<and> list_all (expected_call p d) cs
            \<and> (\<not> isl (fst (ensure_stopped e p s)) \<longrightarrow>
                 cs \<noteq> [] \<and> (\<exists>x. last cs = PollJob x ''virtualmachine''))"
  using assms
  by (simp add: ensure_stopped_def stop_instance_def get_instance_cached truthy_reply_def
      bindm_apply lift_def sub_state_def item_state_def sub_id_def item_id_def set_changed_def
      set_self_instance_def ret_def query_api_def poll_def steps_def mutating_def step_of_def
      expected_call_def
      split: sum.split)


lemma demo_state_stopped:
  assumes "unstarted cs" "list_ex (\<lambda>x. step_of x = StopStep) cs"
  shows "demo_state cs = ''Stopped''"
proof -
  let ?es = "filter (\<lambda>c. step_of c \<in> set [StopStep, StartStep]) cs"
  from assms(2) have ne: "?es \<noteq> []"
    by (auto simp: list_ex_iff filter_empty_conv)
  then have "last ?es \<in> set ?es" by (rule last_in_set)
  then have "step_of (last ?es) \<in> {StopStep, StartStep}" "last ?es \<in> set cs" by auto
  with assms(1) have "step_of (last ?es) = StopStep"
    by (auto simp: unstarted_def list_all_iff)
  with ne show ?thesis
    by (cases ?es) (simp_all add: demo_state_def)
qed

lemma demo_now_parked:
  assumes "unstarted cs" "down demo_vm cs"
  shows "parked (Some (VM (demo_now cs)))"
proof -
  have "\<not> parked (Some (VM demo_vm))"
    by (simp add: parked_def demo_vm_def lower_def lower_char_def)
  with assms(2) have "list_ex (\<lambda>x. step_of x = StopStep) cs" by (simp add: down_def)
  from demo_state_stopped [OF assms(1) this] show ?thesis
    by (simp add: parked_def demo_now_def lower_def lower_char_def)
qed

lemma demo_settles: "settles_stopped demo_ext demo_vm []"
  unfolding settles_stopped_def
proof (intro conjI allI impI)
  fix cs x j r
  assume "unstarted cs" "down demo_vm (cs @ [x])" "step_of x \<in> {StopStep, SshKeyStep}"
    "poll_job demo_ext ([] @ cs @ [x]) (Some (Job j)) ''virtualmachine'' = Inr r"
  then show "parked r"
    using demo_now_parked [of "cs @ [x]"]
    by (auto simp: demo_ext_def demo_poll_job_def)
next
  fix cs x v
  assume "unstarted cs" "down demo_vm cs" "step_of x \<in> {OfferingStep, UpdateStep}"
    "api demo_ext ([] @ cs) x = Inr (Envelope v)"
  then show "parked (Some (VM v))"
    using demo_now_parked [of cs]
    by (cases x) (auto simp: demo_ext_def demo_api_def step_of_def)
next
  fix h x r
  assume "step_of x \<in> {StopStep, SshKeyStep}" "api demo_ext h x = Inr r"
  then show "\<exists>j. r = Job j"
    by (cases x) (auto simp: demo_ext_def demo_api_def step_of_def)
next
  fix h w k r
  assume "poll_job demo_ext h (Some (VM w)) k = Inr r"
  then show "r = Some (VM w)"
    by (auto simp: demo_ext_def demo_poll_job_def)
qed

lemma demo_detect_changes:
  "detect_changes demo_ext demo_update_params (VM demo_vm) (demo_st demo_vm)
     = (Inr demo_detected, demo_st demo_vm)"
  by code_simp

lemma demo_update_returns:
  "\<not> isl (fst (update_instance demo_ext demo_update_params (VM demo_vm) True (demo_st demo_vm)))"
  by code_simp

lemma demo_update_trace:
  "trace (snd (update_instance demo_ext demo_update_params (VM demo_vm) True (demo_st demo_vm)))
     = [StopVirtualMachine ''vm-1'',
        PollJob (Some (Job ''stop'')) ''virtualmachine'',
        PollJob (Some (VM (demo_vm\<lparr>state := ''Stopped''\<rparr>))) ''virtualmachine'',
        ChangeServiceForVirtualMachine \<lparr>offering_vm_id = ''vm-1'', serviceofferingid = Some ''so-2''\<rparr>,
        UpdateVirtualMachine
          \<lparr>update_vm_id = ''vm-1'', update_userdataid = None, update_userdata = None,
           userdatadetails = None, ostypeid = None, update_group = None,
           update_displayname = Some ''web'', securitygroupnames = Some ''web,cache''\<rparr>,
        ResetSSHKeyForVirtualMachine
          \<lparr>ssh_vm_id = ''vm-1'', ssh_projectid = None, ssh_keypairs = Some [''alice'']\<rparr>,
        PollJob (Some (Job ''reset'')) ''virtualmachine'',
        ResizeVolume \<lparr>resize_id = Some ''vol-1'', resize_size = Some 25, shrinkok = None\<rparr>,
        PollJob (Some (Job ''resize'')) ''volume'',
        StartVirtualMachine ''vm-1'' None,
        PollJob (Some (Job ''start'')) ''virtualmachine'']"
  by code_simp



lemma update_instance_not_applied:
  assumes "detect_changes e p (VM v) s = (Inr d, s0)" "any_changed d"
    "lower (state v) \<noteq> ''stopped''" "\<not> force p"
  shows "update_instance e p (VM v) sv s =
           migrate e p (Some (seen_instance d))
             (s\<lparr>warnings := warnings s @ [not_applied_warning (vm_name v)]\<rparr>)
       \<and> host_changed p (Some (seen_instance d)) = host_changed p (Some (VM v))"
proof -
  from detect_changes_seen [OF assms(1)] obtain u
    where s0: "s0 = s" and seen: "seen_instance d = VM (v\<lparr>userdata := u\<rparr>)" by blast
  have st: "item_state (seen_instance d) = Inr (state v)"
    "item_name (seen_instance d) = Inr (vm_name v)"
    by (simp_all add: seen item_state_def item_name_def)
  have "update_instance e p (VM v) sv s = bindm (apply_or_warn e p d sv) (migrate e p) s"
    using assms(1) s0 by (simp add: update_instance_def bindm_apply)
  also have "apply_or_warn e p d sv
               = bindm (warn (not_applied_warning (vm_name v))) (\<lambda>_. ret (Some (seen_instance d)))"
    using assms(2-4) by (auto simp: apply_or_warn_def st Let_def)
  finally show ?thesis
    by (simp add: bindm_apply warn_def ret_def seen host_changed_def sub_state_def item_state_def
        get_hostname_def)
qed


lemma demo_detect_changes_unforced:
  "detect_changes demo_ext (demo_update_params\<lparr>force := False\<rparr>) (VM demo_vm) (demo_st demo_vm)
     = (Inr demo_detected, demo_st demo_vm)"
  by code_simp


subsection \<open>Deploy\<close>

lemma keeps_trace_reads [intro]: "reads f \<Longrightarrow> keeps_trace f"
  by (simp add: keeps_trace_def reads_def)

lemma keeps_trace_set_changed [simp, intro!]: "keeps_trace set_changed"
  by (simp add: keeps_trace_def set_changed_def)

lemma reads_scope_zone_args [simp, intro!]: "reads (scope_zone_args e)"
  unfolding scope_zone_args_def by auto

lemma reads_get_network_ids [simp, intro!]: "reads (get_network_ids e p given)"
  unfolding get_network_ids_def Let_def by auto

lemma keeps_trace_get_template_or_iso [simp, intro!]: "keeps_trace (get_template_or_iso e p)"
proof -
  have r: "reads (scope_zone_args e)" by simp
  show ?thesis
    by (auto simp: keeps_trace_def get_template_or_iso_def bindm_apply reads_apply [OF r]
        ret_def raise_def ask_def split: sum.splits option.splits)
qed

lemma fails_quietly_raise [simp, intro!]: "fails_quietly (raise err)"
  by (simp add: fails_quietly_def raise_def)

lemma fails_quietly_bindm [intro!]:
  assumes "keeps_trace f" "\<And>x. fails_quietly (g x)"
  shows "fails_quietly (bindm f g)"
  unfolding fails_quietly_def
proof
  fix s
  obtain r s1 where f: "f s = (r, s1)" by (cases "f s")
  with assms(1) have t: "trace s1 = trace s" by (auto simp: keeps_trace_def dest: spec [of _ s])
  show "isl (fst (bindm f g s)) \<and> trace (snd (bindm f g s)) = trace s"
    using f t assms(2) by (cases r) (auto simp: bindm_apply fails_quietly_def)
qed

lemma get_iptonetwork_mappings_exclusive:
  assumes "ip_to_networks p = Some mappings" "mappings \<noteq> []" "networks p = Some nets" "nets \<noteq> []"
  shows "get_iptonetwork_mappings e p
           = raise (Fail ''networks and ip_to_networks are mutually exclusive.'')"
  using assms by (simp add: get_iptonetwork_mappings_def truthy_list_def)

lemma deploy_fails_quietly:
  assumes "ip_to_networks p = Some mappings" "mappings \<noteq> []" "networks p = Some nets" "nets \<noteq> []"
  shows "fails_quietly (deploy_instance e p start_vm)"
  unfolding deploy_instance_def get_iptonetwork_mappings_exclusive [OF assms]
  by (intro fails_quietly_bindm keeps_trace_set_changed keeps_trace_reads
      keeps_trace_get_template_or_iso reads_get_network_ids reads_ask
      reads_get_service_offering_id)
    (auto intro!: fails_quietly_bindm keeps_trace_reads)

text \<open>
  Claim C9, amended.  If a non-empty \<open>ip_to_networks\<close> list and a non-empty \<open>networks\<close> list
  are both supplied, \<open>deploy_instance\<close> always raises and sends nothing, so no
  \<open>deployVirtualMachine\<close>.  What it raises is the error of the first step that fails among
  those that come before the mappings in the argument assembly (network ids, template or
  ISO, zone, service offering, account, domain, project, disk offering), and the
  mutual-exclusion error when they all succeed.  This is how \<open>present_instance\<close> ends
  whenever it finds no instance, which is when it deploys.
\<close>

theorem deploy_rejects_both_network_forms:
  assumes "ip_to_networks p = Some mappings" "mappings \<noteq> []" "networks p = Some nets" "nets \<noteq> []"
    and "deploy_instance e p start_vm s = (r, s')"
  shows "isl r \<and> trace s' = trace s \<and> issued s s' = []
       \<and> (\<forall>s0 found. get_instance e p False s0 = (Inr found, s) \<longrightarrow> \<not> truthy_reply found \<longrightarrow>
             present_instance e p start_vm s0 = (r, s'))
       \<and> r =
           (case fst (get_network_ids e p None (s\<lparr>result_changed := True\<rparr>)) of
              Inl err \<Rightarrow> Inl err
            | Inr _ \<Rightarrow>
           (case fst (get_template_or_iso e p (s\<lparr>result_changed := True\<rparr>)) of
              Inl err \<Rightarrow> Inl err
            | Inr source \<Rightarrow>
                if \<not> truthy_str (map_option source_id source)
                then Inl (Fail ''Template or ISO is required.'')
                else
           (case get_zone e (trace s) of
              Inl err \<Rightarrow> Inl err
            | Inr _ \<Rightarrow>
           (case fst (get_service_offering_id e p
                        (snd (get_template_or_iso e p (s\<lparr>result_changed := True\<rparr>)))) of
              Inl err \<Rightarrow> Inl err
            | Inr _ \<Rightarrow>
           (case get_account e (trace s) of
              Inl err \<Rightarrow> Inl err
            | Inr _ \<Rightarrow>
           (case get_domain e (trace s) of
              Inl err \<Rightarrow> Inl err
            | Inr _ \<Rightarrow>
           (case get_project e (trace s) of
              Inl err \<Rightarrow> Inl err
            | Inr _ \<Rightarrow>
           (case get_disk_offering e (trace s) of
              Inl err \<Rightarrow> Inl err
            | Inr _ \<Rightarrow> Inl (Fail ''networks and ip_to_networks are mutually exclusive.'')))))))))"
proof -
  let ?s0 = "s\<lparr>result_changed := True\<rparr>"
  from deploy_fails_quietly [OF assms(1-4), of e start_vm] assms(5)
  have q: "isl r" "trace s' = trace s"
    by (auto simp: fails_quietly_def dest: spec [of _ s])
  obtain rn sn where n: "get_network_ids e p None ?s0 = (rn, sn)"
    by (cases "get_network_ids e p None ?s0")
  have sn: "sn = ?s0" using reads_D [OF reads_get_network_ids n] .
  obtain rt s1 where t: "get_template_or_iso e p ?s0 = (rt, s1)"
    by (cases "get_template_or_iso e p ?s0")
  have ts: "trace s1 = trace s"
    using keeps_trace_get_template_or_iso [of e p] t
    by (auto simp: keeps_trace_def dest: spec [of _ ?s0])
  obtain ro so where o: "get_service_offering_id e p s1 = (ro, so)"
    by (cases "get_service_offering_id e p s1")
  have so: "so = s1" using reads_D [OF reads_get_service_offering_id o] .
  have "r = fst (deploy_instance e p start_vm s)" using assms(5) by simp
  also have "\<dots> =
           (case rn of
              Inl err \<Rightarrow> Inl err
            | Inr _ \<Rightarrow>
           (case rt of
              Inl err \<Rightarrow> Inl err
            | Inr source \<Rightarrow>
                if \<not> truthy_str (map_option source_id source)
                then Inl (Fail ''Template or ISO is required.'')
                else
           (case get_zone e (trace s) of
              Inl err \<Rightarrow> Inl err
            | Inr _ \<Rightarrow>
           (case ro of
              Inl err \<Rightarrow> Inl err
            | Inr _ \<Rightarrow>
           (case get_account e (trace s) of
              Inl err \<Rightarrow> Inl err
            | Inr _ \<Rightarrow>
           (case get_domain e (trace s) of
              Inl err \<Rightarrow> Inl err
            | Inr _ \<Rightarrow>
           (case get_project e (trace s) of
              Inl err \<Rightarrow> Inl err
            | Inr _ \<Rightarrow>
           (case get_disk_offering e (trace s) of
              Inl err \<Rightarrow> Inl err
            | Inr _ \<Rightarrow> Inl (Fail ''networks and ip_to_networks are mutually exclusive.'')))))))))"
    using n sn t ts o so
    by (simp add: deploy_instance_def get_iptonetwork_mappings_exclusive [OF assms(1-4)]
        bindm_apply set_changed_def ask_def raise_def split: sum.split)
  finally have r: "r =
           (case rn of
              Inl err \<Rightarrow> Inl err
            | Inr _ \<Rightarrow>
           (case rt of
              Inl err \<Rightarrow> Inl err
            | Inr source \<Rightarrow>
                if \<not> truthy_str (map_option source_id source)
                then Inl (Fail ''Template or ISO is required.'')
                else
           (case get_zone e (trace s) of
              Inl err \<Rightarrow> Inl err
            | Inr _ \<Rightarrow>
           (case ro of
              Inl err \<Rightarrow> Inl err
            | Inr _ \<Rightarrow>
           (case get_account e (trace s) of
              Inl err \<Rightarrow> Inl err
            | Inr _ \<Rightarrow>
           (case get_domain e (trace s) of
              Inl err \<Rightarrow> Inl err
            | Inr _ \<Rightarrow>
           (case get_project e (trace s) of
              Inl err \<Rightarrow> Inl err
            | Inr _ \<Rightarrow>
           (case get_disk_offering e (trace s) of
              Inl err \<Rightarrow> Inl err
            | Inr _ \<Rightarrow> Inl (Fail ''networks and ip_to_networks are mutually exclusive.'')))))))))" .
  have f: "fst (get_network_ids e p None ?s0) = rn"
    "fst (get_template_or_iso e p ?s0) = rt"
    "fst (get_service_offering_id e p (snd (get_template_or_iso e p ?s0))) = ro"
    by (simp_all add: n t o)
  have i: "issued s s' = []" using q(2) by (simp add: issued_def)
  have pi: "\<forall>s0 found. get_instance e p False s0 = (Inr found, s) \<longrightarrow> \<not> truthy_reply found \<longrightarrow>
              present_instance e p start_vm s0 = (r, s')"
    using assms(5) q(1)
    by (auto simp: present_instance_def bindm_apply isl_def split: option.splits)
  show ?thesis unfolding f using q i pi r by blast
qed

theorem deploy_rejects_both_network_forms_witness:
  "present_instance demo_ext (demo_deploy_params\<lparr>name := Some ''fresh''\<rparr>) True demo_empty_st
     = (Inl (Fail ''networks and ip_to_networks are mutually exclusive.''),
        demo_empty_st\<lparr>self_template := Some demo_big_template, result_changed := True\<rparr>)
   \<and> fst (deploy_instance demo_ext (demo_deploy_params\<lparr>template := Some ''arch''\<rparr>) True
            demo_empty_st)
     = Inl (Fail (''Template '' @ quoted ''arch'' @ '' not found''))
   \<and> trace (snd (deploy_instance demo_ext (demo_deploy_params\<lparr>template := Some ''arch''\<rparr>) True
                   demo_empty_st)) = []"
proof -
  let ?s = "demo_empty_st\<lparr>result_changed := True\<rparr>"
  let ?p = "demo_deploy_params\<lparr>name := Some ''fresh''\<rparr>"
  let ?q = "demo_deploy_params\<lparr>template := Some ''arch''\<rparr>"
  have p: "ip_to_networks ?p = Some [\<lparr>mapping_network = ''net-a'', mapping_ip = Some ''10.1.1.1''\<rparr>]"
    "networks ?p = Some [''net-a'']"
    "ip_to_networks ?q = Some [\<lparr>mapping_network = ''net-a'', mapping_ip = Some ''10.1.1.1''\<rparr>]"
    "networks ?q = Some [''net-a'']"
    by (simp_all add: demo_deploy_params_def)
  have g: "get_instance demo_ext ?p False demo_empty_st = (Inr None, demo_empty_st)"
    by code_simp
  have n: "get_network_ids demo_ext ?p None ?s = (Inr (Some [''n-1'']), ?s)"
    by code_simp
  have t: "get_template_or_iso demo_ext ?p ?s
             = (Inr (Some (Template demo_big_template)), ?s\<lparr>self_template := Some demo_big_template\<rparr>)"
    by code_simp
  have i: "truthy_str (map_option source_id (Some (Template demo_big_template)))"
    by (simp add: source_id_def demo_big_template_def truthy_str_def)
  have o: "get_service_offering_id demo_ext ?p (?s\<lparr>self_template := Some demo_big_template\<rparr>)
             = (Inr ''so-1'', ?s\<lparr>self_template := Some demo_big_template\<rparr>)"
    by code_simp
  have d: "get_disk_offering demo_ext (trace demo_empty_st) = Inr None"
    by (simp add: demo_ext_def)
  have e: "snd (deploy_instance demo_ext ?p True demo_empty_st)
             = demo_empty_st\<lparr>self_template := Some demo_big_template, result_changed := True\<rparr>"
    by code_simp
  have n': "get_network_ids demo_ext ?q None ?s = (Inr (Some [''n-1'']), ?s)"
    by code_simp
  have t': "fst (get_template_or_iso demo_ext ?q ?s)
              = Inl (Fail (''Template '' @ quoted ''arch'' @ '' not found''))"
    by code_simp
  note rejected = deploy_rejects_both_network_forms [OF p(1) _ p(2) _ surjective_pairing,
      of demo_ext True demo_empty_st]
  from rejected
  have a: "fst (deploy_instance demo_ext ?p True demo_empty_st)
             = Inl (Fail ''networks and ip_to_networks are mutually exclusive.'')"
    using n t i o d demo_scope(1-4) [of "trace demo_empty_st"] by simp
  have f: "\<not> truthy_reply None" by (simp add: truthy_reply_def)
  from rejected
  have "\<forall>s0 found. get_instance demo_ext ?p False s0 = (Inr found, demo_empty_st) \<longrightarrow>
        \<not> truthy_reply found \<longrightarrow>
        present_instance demo_ext ?p True s0
          = (fst (deploy_instance demo_ext ?p True demo_empty_st),
             snd (deploy_instance demo_ext ?p True demo_empty_st))"
    by blast
  with g f have "present_instance demo_ext ?p True demo_empty_st
          = (fst (deploy_instance demo_ext ?p True demo_empty_st),
             snd (deploy_instance demo_ext ?p True demo_empty_st))"
    by blast
  with a e have c: "present_instance demo_ext ?p True demo_empty_st
     = (Inl (Fail ''networks and ip_to_networks are mutually exclusive.''),
        demo_empty_st\<lparr>self_template := Some demo_big_template, result_changed := True\<rparr>)"
    by simp
  from deploy_rejects_both_network_forms [OF p(3) _ p(4) _ surjective_pairing, of demo_ext True
         demo_empty_st]
  have b: "trace (snd (deploy_instance demo_ext ?q True demo_empty_st)) = trace demo_empty_st"
    "fst (deploy_instance demo_ext ?q True demo_empty_st)
       = Inl (Fail (''Template '' @ quoted ''arch'' @ '' not found''))"
    using n' t' by simp_all
  from c b show ?thesis
    by (simp add: demo_empty_st_def)
qed

text \<open>
  Claim C9 as worded fails in three ways.  When the \<open>networks\<close> list that is supplied is
  empty, the deployment goes through and \<open>deployVirtualMachine\<close> is sent.  When both lists
  are non-empty and one of the networks does not exist, the deployment fails with the error
  of the network lookup, not with the mutual-exclusion error.  When both lists are
  non-empty and the instance exists already, the module updates it and does not fail.
\<close>

theorem deploy_with_empty_networks_counterexample:
  "\<not> isl (fst (deploy_instance demo_ext (demo_deploy_params\<lparr>networks := Some []\<rparr>) True
               demo_empty_st))
   \<and> map is_deploy
        (issued demo_empty_st
           (snd (deploy_instance demo_ext (demo_deploy_params\<lparr>networks := Some []\<rparr>) True
                   demo_empty_st)))
       = [True]
   \<and> fst (deploy_instance demo_ext demo_deploy_unknown_network True demo_empty_st)
       = Inl (Fail (''Could not find all networks, networks list found: ''
                    @ repr_names demo_ext [''net-a'']))
   \<and> truthy_list (networks demo_deploy_unknown_network)
   \<and> truthy_list (ip_to_networks demo_deploy_unknown_network)
   \<and> \<not> isl (fst (present_instance demo_ext demo_deploy_params True (demo_st demo_vm)))
   \<and> truthy_list (networks demo_deploy_params)
   \<and> truthy_list (ip_to_networks demo_deploy_params)"
  by code_simp

end
